theory Spec2Isabelle
  imports Complex_Main "HOL-Library.Product_Lexorder"
begin

section \<open>Numbers of the runtime\<close>

text \<open>
  Amounts are JavaScript numbers: IEEE 754 binary64 values.  A finite number is modelled by
  its exact rational value (the two zeros are one value), next to the two infinities and
  NaN.  An arithmetic operation returns the double nearest to the exact result, a tie
  going to the even significand, and an infinity when the rounded magnitude reaches
  \<open>2 ^ 1024\<close>.
\<close>

datatype jsnum = Num rat | Infinity | NegInfinity | NaN

text \<open>The integer nearest to \<open>q\<close>, a tie going to the even one.\<close>

definition round_half_even :: "rat \<Rightarrow> int" where
  "round_half_even q =
     (let f = \<lfloor>q\<rfloor>; d = q - of_int f
      in if d < 1 / 2 then f else if 1 / 2 < d then f + 1 else if even f then f else f + 1)"

text \<open>
  The binary exponent of a positive number: the \<open>e\<close> with \<open>2 ^ e \<le> x < 2 ^ (e + 1)\<close>,
  counted by halving a number from 2 up and by doubling a number below 1.
\<close>

function bin_up :: "rat \<Rightarrow> nat" where
  "bin_up x = (if 2 \<le> x then Suc (bin_up (x / 2)) else 0)"
  by pat_completeness auto
termination
proof (relation "measure (\<lambda>x. nat \<lfloor>x\<rfloor>)")
  show "wf (measure (\<lambda>x::rat. nat \<lfloor>x\<rfloor>))" by simp
next
  fix x :: rat
  assume "2 \<le> x"
  then have "x / 2 \<le> x - 1" by simp
  then have "\<lfloor>x / 2\<rfloor> \<le> \<lfloor>x - 1\<rfloor>" by (rule floor_mono)
  moreover have "1 \<le> \<lfloor>x\<rfloor>" using \<open>2 \<le> x\<close> by (simp add: le_floor_iff)
  ultimately show "(x / 2, x) \<in> measure (\<lambda>x. nat \<lfloor>x\<rfloor>)" by simp
qed

function bin_down :: "rat \<Rightarrow> nat" where
  "bin_down x = (if 0 < x \<and> x < 1 then Suc (bin_down (2 * x)) else 0)"
  by pat_completeness auto
termination
proof (relation "measure (\<lambda>x. nat \<lceil>1 / x\<rceil>)")
  show "wf (measure (\<lambda>x::rat. nat \<lceil>1 / x\<rceil>))" by simp
next
  fix x :: rat
  assume a: "0 < x \<and> x < 1"
  then have y: "1 < 1 / x" by simp
  have c2: "2 \<le> \<lceil>1 / x\<rceil>" using y by (simp add: le_ceiling_iff)
  have "1 / (2 * x) = (1 / x) / 2" by simp
  also have "\<dots> \<le> of_int \<lceil>1 / x\<rceil> / 2"
    by (simp add: divide_right_mono)
  also have "\<dots> \<le> of_int \<lceil>1 / x\<rceil> - 1"
    using c2 by simp
  finally have "1 / (2 * x) \<le> of_int (\<lceil>1 / x\<rceil> - 1)" by simp
  then have "\<lceil>1 / (2 * x)\<rceil> \<le> \<lceil>1 / x\<rceil> - 1"
    by (simp only: ceiling_le_iff)
  with c2 a show "(2 * x, x) \<in> measure (\<lambda>x. nat \<lceil>1 / x\<rceil>)" by simp
qed

declare bin_up.simps [simp del]
declare bin_down.simps [simp del]

definition binade :: "rat \<Rightarrow> int" where
  "binade x = (if 1 \<le> x then int (bin_up x) else - int (bin_down x))"

text \<open>
  The double nearest to a rational: 53 significant bits, so the spacing of the doubles
  around \<open>x\<close> is \<open>2 ^ (e - 52)\<close> for the binary exponent \<open>e\<close> of \<open>\<bar>x\<bar>\<close>; the exponent
  is not taken below -1022 (subnormal numbers, and underflow to zero); a rounded
  magnitude of \<open>2 ^ 1024\<close> is an overflow to the infinity of the sign.
\<close>

definition double_of :: "rat \<Rightarrow> jsnum" where
  "double_of x =
     (if x = 0 then Num 0
      else
        let u = 2 powi (max (binade \<bar>x\<bar>) (- 1022) - 52);
            y = of_int (round_half_even (x / u)) * u
        in if 2 powi 1024 \<le> \<bar>y\<bar> then (if 0 < x then Infinity else NegInfinity)
           else Num y)"

text \<open>\<^verbatim>\<open>x + y\<close>\<close>

fun js_add :: "jsnum \<Rightarrow> jsnum \<Rightarrow> jsnum" where
  "js_add (Num a) (Num b) = double_of (a + b)"
| "js_add NaN y = NaN"
| "js_add x NaN = NaN"
| "js_add Infinity NegInfinity = NaN"
| "js_add NegInfinity Infinity = NaN"
| "js_add Infinity y = Infinity"
| "js_add x Infinity = Infinity"
| "js_add NegInfinity y = NegInfinity"
| "js_add x NegInfinity = NegInfinity"

fun js_neg :: "jsnum \<Rightarrow> jsnum" where
  "js_neg (Num a) = Num (- a)"
| "js_neg Infinity = NegInfinity"
| "js_neg NegInfinity = Infinity"
| "js_neg NaN = NaN"

text \<open>\<^verbatim>\<open>x - y\<close>: the sum of \<open>x\<close> and the negated \<open>y\<close>.\<close>

definition js_sub :: "jsnum \<Rightarrow> jsnum \<Rightarrow> jsnum" where
  "js_sub x y = js_add x (js_neg y)"

fun js_sign :: "jsnum \<Rightarrow> rat" where
  "js_sign (Num a) = sgn a"
| "js_sign Infinity = 1"
| "js_sign NegInfinity = - 1"
| "js_sign NaN = 0"

text \<open>The infinity of a sign; no sign (a zero met an infinity, or 0 / 0) gives NaN.\<close>

definition signed_infinity :: "rat \<Rightarrow> jsnum" where
  "signed_infinity s = (if 0 < s then Infinity else if s < 0 then NegInfinity else NaN)"

text \<open>\<^verbatim>\<open>x * y\<close>\<close>

fun js_mul :: "jsnum \<Rightarrow> jsnum \<Rightarrow> jsnum" where
  "js_mul (Num a) (Num b) = double_of (a * b)"
| "js_mul NaN y = NaN"
| "js_mul x NaN = NaN"
| "js_mul x y = signed_infinity (js_sign x * js_sign y)"

text \<open>
  \<^verbatim>\<open>x / y\<close>: a zero divisor gives the infinity of the dividend's sign, or NaN for
  \<^verbatim>\<open>0 / 0\<close>.
\<close>

fun js_div :: "jsnum \<Rightarrow> jsnum \<Rightarrow> jsnum" where
  "js_div (Num a) (Num b) = (if b \<noteq> 0 then double_of (a / b) else signed_infinity (sgn a))"
| "js_div NaN y = NaN"
| "js_div x NaN = NaN"
| "js_div (Num a) y = Num 0"
| "js_div x (Num b) = signed_infinity (js_sign x * (if b < 0 then - 1 else 1))"
| "js_div x y = NaN"

text \<open>
  \<^verbatim>\<open>Math.round\<close>: the nearest integer, a tie going up; infinities and NaN pass.  The
  result is exact: it is an integer below \<open>2 ^ 53\<close> in magnitude, or the argument itself.
\<close>

definition Math_round :: "jsnum \<Rightarrow> jsnum" where
  "Math_round x = (case x of Num r \<Rightarrow> Num (of_int \<lfloor>r + 1 / 2\<rfloor>) | other \<Rightarrow> other)"

text \<open>\<^verbatim>\<open>Math.min(c, x)\<close> for a finite \<open>c\<close>: NaN is contagious.\<close>

definition Math_min :: "rat \<Rightarrow> jsnum \<Rightarrow> jsnum" where
  "Math_min c x =
     (case x of Num r \<Rightarrow> Num (min c r) | Infinity \<Rightarrow> Num c
      | NegInfinity \<Rightarrow> NegInfinity | NaN \<Rightarrow> NaN)"

text \<open>\<^verbatim>\<open>x >= c\<close> for a finite \<open>c\<close>: false on NaN.\<close>

definition js_ge :: "jsnum \<Rightarrow> rat \<Rightarrow> bool" where
  "js_ge x c = (case x of Num r \<Rightarrow> c \<le> r | Infinity \<Rightarrow> True | other \<Rightarrow> False)"

text \<open>\<^verbatim>\<open>x > c\<close> for a finite \<open>c\<close>: false on NaN.\<close>

definition js_gt :: "jsnum \<Rightarrow> rat \<Rightarrow> bool" where
  "js_gt x c = (case x of Num r \<Rightarrow> c < r | Infinity \<Rightarrow> True | other \<Rightarrow> False)"

text \<open>\<^verbatim>\<open>x >= y\<close> on two numbers: false when either is NaN.\<close>

fun js_geq :: "jsnum \<Rightarrow> jsnum \<Rightarrow> bool" where
  "js_geq (Num a) (Num b) = (b \<le> a)"
| "js_geq NaN y = False"
| "js_geq x NaN = False"
| "js_geq Infinity y = True"
| "js_geq x NegInfinity = True"
| "js_geq x y = False"

text \<open>
  \<^verbatim>\<open>xs.reduce((sum, t) => sum + f(t), 0)\<close>: a left fold from 0, every addition
  rounded.
\<close>

definition reduce_sum :: "('a \<Rightarrow> rat) \<Rightarrow> 'a list \<Rightarrow> jsnum" where
  "reduce_sum f xs = foldl (\<lambda>sum t. js_add sum (Num (f t))) (Num 0) xs"

section \<open>Rows of the database (database.types)\<close>

text \<open>
  A field of type \<^verbatim>\<open>number\<close> holds a finite double, written as its exact value
  (\<^verbatim>\<open>0.1\<close> is \<open>3602879701896397 / 2 ^ 55\<close>).
\<close>

datatype txn_type = Income | Expense

datatype recurring_interval = Daily | Weekly | Monthly | Yearly

record Category =
  cat_id :: string
  cat_name :: string
  cat_color :: string
  cat_icon :: string
  cat_user_id :: string
  cat_created_at :: string
  cat_type :: txn_type
  cat_budget :: "rat option"

record Transaction =
  tx_id :: string
  tx_amount :: rat
  tx_description :: string
  tx_date :: string
  tx_category_id :: string
  tx_user_id :: string
  tx_created_at :: string
  tx_type :: txn_type
  tx_is_recurring :: bool
  tx_recurring_interval :: "recurring_interval option"
  tx_recurring_end_date :: "string option"

record SavingsGoal =
  goal_id :: string
  goal_name :: string
  goal_target_amount :: rat
  goal_current_amount :: rat
  goal_target_date :: "string option"
  goal_user_id :: string
  goal_created_at :: string
  goal_color :: string
  goal_icon :: string

section \<open>Budget page: getBudgetStatus\<close>

record BudgetStatus =
  spent :: jsnum
  remaining :: jsnum
  percentage :: jsnum
  status :: string

text \<open>
  \<^verbatim>\<open>if (!category.budget) return null\<close>: a null budget and the number 0 are both falsy.
\<close>

definition getBudgetStatus :: "Transaction list \<Rightarrow> Category \<Rightarrow> BudgetStatus option" where
  "getBudgetStatus transactions category =
     (case cat_budget category of
        None \<Rightarrow> None
      | Some budget \<Rightarrow>
          if budget = 0 then None
          else
            let spent = reduce_sum tx_amount
                  (filter (\<lambda>t. tx_category_id t = cat_id category) transactions);
                percentage = Math_round (js_mul (js_div spent (Num budget)) (Num 100))
            in Some \<lparr> spent = spent,
                      remaining = js_sub (Num budget) spent,
                      percentage = percentage,
                      status = (if js_ge percentage 90 then ''danger''
                                else if js_ge percentage 75 then ''warning''
                                else ''normal'') \<rparr>)"

section \<open>Savings goals: the progress percentage\<close>

text \<open>The goal card (goals page) and the dashboard's goal list compute the same expression.\<close>

definition GoalCard_percentage :: "SavingsGoal \<Rightarrow> jsnum" where
  "GoalCard_percentage goal =
     Math_min 100
       (Math_round
          (js_mul (js_div (Num (goal_current_amount goal)) (Num (goal_target_amount goal)))
             (Num 100)))"

definition Dashboard_goal_percentage :: "SavingsGoal \<Rightarrow> jsnum" where
  "Dashboard_goal_percentage goal =
     Math_min 100
       (Math_round
          (js_mul (js_div (Num (goal_current_amount goal)) (Num (goal_target_amount goal)))
             (Num 100)))"

section \<open>Calendar months (lib/utils: getLastNMonths)\<close>

text \<open>
  The clock: what \<^verbatim>\<open>new Date()\<close> answers to \<^verbatim>\<open>getFullYear()\<close> and \<^verbatim>\<open>getMonth()\<close>
  (the month index, 0 for January).
\<close>

record Clock =
  now_year :: int
  now_month :: int

text \<open>
  \<^verbatim>\<open>new Date(year, monthIndex, 1)\<close> read back with \<^verbatim>\<open>getFullYear()\<close> and
  \<^verbatim>\<open>getMonth()\<close>: a year from 0 to 99 means 1900 + year, and a month index outside
  0..11 carries into the year.  The calendar is taken unbounded.
\<close>

definition Date_year_month :: "int \<Rightarrow> int \<Rightarrow> int \<times> int" where
  "Date_year_month y m =
     (let yr = (if 0 \<le> y \<and> y \<le> 99 then 1900 + y else y)
      in (yr + m div 12, m mod 12))"

text \<open>\<^verbatim>\<open>toLocaleString('en-US', { month: 'short' })\<close> of a month index.\<close>

definition month_short :: "int \<Rightarrow> string" where
  "month_short m =
     [''Jan'', ''Feb'', ''Mar'', ''Apr'', ''May'', ''Jun'',
      ''Jul'', ''Aug'', ''Sep'', ''Oct'', ''Nov'', ''Dec''] ! nat m"

record MonthInfo =
  mi_month :: int
  mi_year :: int
  mi_name :: string

text \<open>The body of the loop: the entry pushed for the counter \<open>i\<close>.\<close>

definition month_entry :: "Clock \<Rightarrow> nat \<Rightarrow> MonthInfo" where
  "month_entry today i =
     (let month = Date_year_month (now_year today) (now_month today - int i)
      in \<lparr> mi_month = snd month + 1, mi_year = fst month, mi_name = month_short (snd month) \<rparr>)"

text \<open>\<^verbatim>\<open>for (let i = 0; i < n; i++) result.push(...)\<close>\<close>

function getLastNMonths_loop :: "Clock \<Rightarrow> nat \<Rightarrow> nat \<Rightarrow> MonthInfo list \<Rightarrow> MonthInfo list" where
  "getLastNMonths_loop today n i result =
     (if i < n then getLastNMonths_loop today n (Suc i) (result @ [month_entry today i])
      else result)"
  by pat_completeness auto
termination
  by (relation "measure (\<lambda>(today, n, i, result). n - i)") auto

declare getLastNMonths_loop.simps [simp del]

definition getLastNMonths :: "Clock \<Rightarrow> nat \<Rightarrow> MonthInfo list" where
  "getLastNMonths today n = rev (getLastNMonths_loop today n 0 [])"

section \<open>Dashboard: the data processed for charts and stats\<close>

record MonthlyStat =
  m_name :: string
  m_income :: jsnum
  m_expenses :: jsnum
  m_balance :: jsnum

record CategoryEntry =
  e_name :: string
  e_value :: jsnum
  e_color :: string

text \<open>
  \<open>localDate\<close> stands for the runtime's \<^verbatim>\<open>new Date(t.date)\<close> read with
  \<^verbatim>\<open>getFullYear()\<close> and \<^verbatim>\<open>getMonth()\<close> in the local time zone; \<open>None\<close> is an
  invalid date, whose fields are NaN and equal nothing.
\<close>

definition month_stat ::
  "(string \<Rightarrow> (int \<times> int) option) \<Rightarrow> Transaction list \<Rightarrow> MonthInfo \<Rightarrow> MonthlyStat" where
  "month_stat localDate transactions month =
     (let monthTransactions =
            filter (\<lambda>t. case localDate (tx_date t) of
                           None \<Rightarrow> False
                         | Some date \<Rightarrow> snd date + 1 = mi_month month \<and> fst date = mi_year month)
              transactions;
          monthlyIncome =
            reduce_sum tx_amount (filter (\<lambda>t. tx_type t = Income) monthTransactions);
          monthlyExpenses =
            reduce_sum tx_amount (filter (\<lambda>t. tx_type t = Expense) monthTransactions)
      in \<lparr> m_name = mi_name month,
           m_income = monthlyIncome,
           m_expenses = monthlyExpenses,
           m_balance = js_sub monthlyIncome monthlyExpenses \<rparr>)"

definition monthlyStats ::
  "(string \<Rightarrow> (int \<times> int) option) \<Rightarrow> MonthInfo list \<Rightarrow> Transaction list \<Rightarrow> MonthlyStat list" where
  "monthlyStats localDate months transactions = map (month_stat localDate transactions) months"

text \<open>
  \<^verbatim>\<open>.sort((a, b) => b.value - a.value)\<close>: a stable sort, larger values first.  The
  sort is applied to entries whose value is greater than 0, that is a positive finite
  number or the infinity.  On these the comparator's sign is the order of the values (the
  difference of two doubles is zero only when they are equal; the difference of the
  infinity with itself is NaN, which the sort takes as equal), so the sort is the stable
  sort by this rank: the infinity first, then the finite values from the largest.
\<close>

definition value_rank :: "jsnum \<Rightarrow> nat \<times> rat" where
  "value_rank x =
     (case x of Infinity \<Rightarrow> (0, 0) | Num r \<Rightarrow> (1, - r) | NegInfinity \<Rightarrow> (2, 0) | NaN \<Rightarrow> (3, 0))"

definition sort_by_value_desc :: "CategoryEntry list \<Rightarrow> CategoryEntry list" where
  "sort_by_value_desc entries = sort_key (\<lambda>e. value_rank (e_value e)) entries"

definition category_entry :: "Transaction list \<Rightarrow> Category \<Rightarrow> CategoryEntry" where
  "category_entry transactions category =
     (let amount = reduce_sum tx_amount
            (filter (\<lambda>t. tx_category_id t = cat_id category) transactions)
      in \<lparr> e_name = cat_name category, e_value = amount, e_color = cat_color category \<rparr>)"

definition expenseByCategory :: "Category list \<Rightarrow> Transaction list \<Rightarrow> CategoryEntry list" where
  "expenseByCategory categories transactions =
     sort_by_value_desc
       (filter (\<lambda>c. js_gt (e_value c) 0)
          (map (category_entry transactions)
             (filter (\<lambda>c. cat_type c = Expense) categories)))"

record Stats =
  totalIncome :: jsnum
  totalExpenses :: jsnum
  balance :: jsnum
  savingsTotal :: jsnum

record Dashboard =
  d_transactions :: "Transaction list"
  d_categories :: "Category list"
  d_savingsGoals :: "SavingsGoal list"
  d_isAddTransactionOpen :: bool
  d_isSubmitting :: bool
  d_recentTransactions :: "Transaction list"
  d_monthlyData :: "MonthlyStat list"
  d_categoryData :: "CategoryEntry list"
  d_stats :: Stats

text \<open>\<^verbatim>\<open>useState\<close>'s initial values.\<close>

definition Dashboard_initial :: Dashboard where
  "Dashboard_initial =
     \<lparr> d_transactions = [], d_categories = [], d_savingsGoals = [],
       d_isAddTransactionOpen = False, d_isSubmitting = False,
       d_recentTransactions = [], d_monthlyData = [], d_categoryData = [],
       d_stats = \<lparr> totalIncome = Num 0, totalExpenses = Num 0, balance = Num 0,
                   savingsTotal = Num 0 \<rparr> \<rparr>"

text \<open>
  The effect that runs when transactions, categories or goals change.  It returns at once
  when there is no transaction, leaving every derived value as it was.
\<close>

definition process_data ::
  "(string \<Rightarrow> (int \<times> int) option) \<Rightarrow> Clock \<Rightarrow> Dashboard \<Rightarrow> Dashboard" where
  "process_data localDate today s =
     (if length (d_transactions s) = 0 then s
      else
        let income = reduce_sum tx_amount (filter (\<lambda>t. tx_type t = Income) (d_transactions s));
            expenses = reduce_sum tx_amount (filter (\<lambda>t. tx_type t = Expense) (d_transactions s));
            savings = reduce_sum goal_current_amount (d_savingsGoals s)
        in s \<lparr> d_stats := \<lparr> totalIncome = income, totalExpenses = expenses,
                            balance = js_sub income expenses, savingsTotal = savings \<rparr>,
                d_recentTransactions := take 5 (d_transactions s),
                d_monthlyData := monthlyStats localDate (getLastNMonths today 6) (d_transactions s),
                d_categoryData := expenseByCategory (d_categories s) (d_transactions s) \<rparr>)"

section \<open>Reports page: filters and category distribution\<close>

definition type_name :: "txn_type \<Rightarrow> string" where
  "type_name ty = (case ty of Income \<Rightarrow> ''income'' | Expense \<Rightarrow> ''expense'')"

definition filteredTransactions :: "string \<Rightarrow> string \<Rightarrow> Transaction list \<Rightarrow> Transaction list" where
  "filteredTransactions categoryFilter typeFilter transactions =
     filter (\<lambda>transaction.
        if categoryFilter \<noteq> ''all'' \<and> tx_category_id transaction \<noteq> categoryFilter then False
        else if typeFilter \<noteq> ''all'' \<and> type_name (tx_type transaction) \<noteq> typeFilter then False
        else True) transactions"

definition categoryData :: "Category list \<Rightarrow> Transaction list \<Rightarrow> CategoryEntry list" where
  "categoryData categories filtered =
     sort_by_value_desc
       (filter (\<lambda>c. js_gt (e_value c) 0) (map (category_entry filtered) categories))"

section \<open>CSV export\<close>

record Toast =
  toast_title :: string
  toast_description :: string
  toast_destructive :: bool

text \<open>
  What a click on an export button does: it shows a notification, or it builds a file and
  hands it to the browser as a download (file name and content), or it raises.
\<close>

datatype export_outcome = Notified Toast | Downloaded string string | Raised string

text \<open>\<^verbatim>\<open>Array.prototype.join\<close>\<close>

fun join :: "string \<Rightarrow> string list \<Rightarrow> string" where
  "join sep [] = []"
| "join sep [x] = x"
| "join sep (x # y # ys) = x @ sep @ join sep (y # ys)"

text \<open>\<^verbatim>\<open>String.prototype.split\<close> with a separator of one character.\<close>

fun split_on :: "char \<Rightarrow> string \<Rightarrow> string list" where
  "split_on sep [] = [[]]"
| "split_on sep (c # cs) =
     (if c = sep then [] # split_on sep cs
      else case split_on sep cs of
             w # ws \<Rightarrow> (c # w) # ws
           | [] \<Rightarrow> [[c]])"

definition comma :: char where
  "comma = CHR '',''"

definition newline :: char where
  "newline = CHR 0x0A"

text \<open>\<^verbatim>\<open>c.toUpperCase()\<close> on an ASCII character: a table of the 26 letters.\<close>

definition toUpperCase :: "char \<Rightarrow> char" where
  "toUpperCase c =
     (case map_of (zip ''abcdefghijklmnopqrstuvwxyz'' ''ABCDEFGHIJKLMNOPQRSTUVWXYZ'') c of
        None \<Rightarrow> c
      | Some u \<Rightarrow> u)"

text \<open>\<^verbatim>\<open>s.charAt(0).toUpperCase() + s.slice(1)\<close>\<close>

definition capitalize :: "string \<Rightarrow> string" where
  "capitalize s = (case s of [] \<Rightarrow> [] | c # cs \<Rightarrow> toUpperCase c # cs)"

text \<open>
  \<^verbatim>\<open>category?.name || "Uncategorized"\<close> for the category found by id: the default
  stands in when no category matches, and also when the name found is the empty string.
\<close>

definition category_label :: "Category list \<Rightarrow> Transaction \<Rightarrow> string" where
  "category_label categories transaction =
     (case find (\<lambda>c. cat_id c = tx_category_id transaction) categories of
        None \<Rightarrow> ''Uncategorized''
      | Some category \<Rightarrow>
          if cat_name category = [] then ''Uncategorized'' else cat_name category)"

definition csv_headers :: "string list" where
  "csv_headers = [''Date'', ''Type'', ''Category'', ''Description'', ''Amount'']"

text \<open>A plain field: one that holds no comma and no line break.\<close>

definition plain :: "string \<Rightarrow> bool" where
  "plain s \<longleftrightarrow> comma \<notin> set s \<and> newline \<notin> set s"

definition csvContent :: "string list list \<Rightarrow> string" where
  "csvContent rows = join [newline] (join [comma] csv_headers # map (join [comma]) rows)"

text \<open>
  Transactions page.  The runtime's part is taken as parameters:
  \<open>toLocaleDateString\<close> is \<^verbatim>\<open>new Date(s).toLocaleDateString()\<close>, \<open>toFixed2\<close> is
  \<^verbatim>\<open>x.toFixed(2)\<close>, and \<open>now_iso\<close> is \<^verbatim>\<open>new Date().toISOString()\<close>.
\<close>

definition exportTransactions ::
  "(string \<Rightarrow> string) \<Rightarrow> (rat \<Rightarrow> string) \<Rightarrow> string \<Rightarrow> Category list \<Rightarrow> Transaction list
     \<Rightarrow> export_outcome" where
  "exportTransactions toLocaleDateString toFixed2 now_iso categories transactions =
     (if length transactions = 0 then
        Notified \<lparr> toast_title = ''No transactions to export'',
                   toast_description = ''Add some transactions first before exporting.'',
                   toast_destructive = False \<rparr>
      else
        let rows = map (\<lambda>transaction.
                     [toLocaleDateString (tx_date transaction),
                      capitalize (type_name (tx_type transaction)),
                      category_label categories transaction,
                      tx_description transaction,
                      toFixed2 (tx_amount transaction)]) transactions
        in Downloaded (''transactions_'' @ hd (split_on (CHR ''T'') now_iso) @ ''.csv'')
             (csvContent rows))"

text \<open>
  Reports page.  \<open>format_ymd\<close> is date-fns' \<^verbatim>\<open>format(new Date(s), "yyyy-MM-dd")\<close>,
  which raises a RangeError on an invalid date (\<open>None\<close>); \<open>range_from\<close> and \<open>range_to\<close>
  are the two ends of the selected date range in the same format.
\<close>

definition exportReport ::
  "(string \<Rightarrow> string option) \<Rightarrow> (rat \<Rightarrow> string) \<Rightarrow> string \<Rightarrow> string \<Rightarrow> Category list
     \<Rightarrow> Transaction list \<Rightarrow> export_outcome" where
  "exportReport format_ymd toFixed2 range_from range_to categories filtered =
     (if length filtered = 0 then
        Notified \<lparr> toast_title = ''No data to export'',
                   toast_description =
                     ''Apply different filters or select a different date range.'',
                   toast_destructive = False \<rparr>
      else
        case those (map (\<lambda>transaction.
                     map_option (\<lambda>date.
                       [date,
                        type_name (tx_type transaction),
                        category_label categories transaction,
                        tx_description transaction,
                        toFixed2 (tx_amount transaction)])
                       (format_ymd (tx_date transaction))) filtered) of
          None \<Rightarrow> Raised ''RangeError: Invalid time value''
        | Some rows \<Rightarrow>
            Downloaded (''financial_report_'' @ range_from @ ''_to_'' @ range_to @ ''.csv'')
              (csvContent rows))"

section \<open>Entity forms: what a handler does with the backend's answer\<close>

text \<open>
  A handler awaits one backend call.  Its answer is either an error with a message or
  success with the data the handler reads (the inserted row \<^verbatim>\<open>data[0]\<close> after
  \<^verbatim>\<open>insert(...).select()\<close>; nothing after an update or a delete).  A handler returns
  the page's new state and what it did, in order: the backend calls it made and the
  notifications it showed.  \<open>user\<close> is the signed-in user's id, if any; \<open>confirmed\<close>
  is the answer to the \<^verbatim>\<open>confirm(...)\<close> prompt; \<open>row_id\<close> is the handler's \<^verbatim>\<open>id\<close>.
\<close>

datatype 'a response = Failed string | Succeeded 'a

datatype event = BackendCall string string | Notify Toast

definition error_toast :: "string \<Rightarrow> string \<Rightarrow> Toast" where
  "error_toast title message =
     \<lparr> toast_title = title, toast_description = message, toast_destructive = True \<rparr>"

definition info_toast :: "string \<Rightarrow> string \<Rightarrow> Toast" where
  "info_toast title description =
     \<lparr> toast_title = title, toast_description = description, toast_destructive = False \<rparr>"

subsection \<open>Transactions page\<close>





subsection \<open>Dashboard\<close>


text \<open>
  The dashboard's load of the categories, the first part of \<^verbatim>\<open>fetchData\<close>.  It selects
  the user's categories and throws on an error, which the \<^verbatim>\<open>catch\<close> turns into a
  notification.  When the selection is empty it calls \<^verbatim>\<open>createDefaultCategories\<close>,
  which inserts ten default categories one after the other, awaiting each insert and
  reading nothing of its answer; it then selects the categories again, reads only
  \<^verbatim>\<open>data\<close> of the answer (null after an error) and sets the list to
  \<^verbatim>\<open>newCategoryData || []\<close>.
\<close>

record DefaultCategory =
  dc_name :: string
  dc_color :: string
  dc_icon :: string
  dc_type :: txn_type

definition defaultCategories :: "DefaultCategory list" where
  "defaultCategories =
     [\<lparr> dc_name = ''Food & Dining'', dc_color = ''#14b8a6'', dc_icon = ''Utensils'', dc_type = Expense \<rparr>,
      \<lparr> dc_name = ''Transportation'', dc_color = ''#8b5cf6'', dc_icon = ''Car'', dc_type = Expense \<rparr>,
      \<lparr> dc_name = ''Shopping'', dc_color = ''#f59e0b'', dc_icon = ''ShoppingBag'', dc_type = Expense \<rparr>,
      \<lparr> dc_name = ''Bills & Utilities'', dc_color = ''#ef4444'', dc_icon = ''Receipt'', dc_type = Expense \<rparr>,
      \<lparr> dc_name = ''Entertainment'', dc_color = ''#ec4899'', dc_icon = ''Film'', dc_type = Expense \<rparr>,
      \<lparr> dc_name = ''Housing'', dc_color = ''#64748b'', dc_icon = ''Home'', dc_type = Expense \<rparr>,
      \<lparr> dc_name = ''Salary'', dc_color = ''#22c55e'', dc_icon = ''Briefcase'', dc_type = Income \<rparr>,
      \<lparr> dc_name = ''Investments'', dc_color = ''#3b82f6'', dc_icon = ''TrendingUp'', dc_type = Income \<rparr>,
      \<lparr> dc_name = ''Gifts'', dc_color = ''#a855f7'', dc_icon = ''Gift'', dc_type = Income \<rparr>,
      \<lparr> dc_name = ''Other Income'', dc_color = ''#f97316'', dc_icon = ''PlusCircle'', dc_type = Income \<rparr>]"

text \<open>
  \<^verbatim>\<open>for (const category of defaultCategories) await supabase.from("categories").insert(...)\<close>:
  \<open>answers\<close> holds the backend's answers to the inserts, in order; the loop drops each.
\<close>

fun createDefaultCategories_loop :: "DefaultCategory list \<Rightarrow> unit response list \<Rightarrow> event list" where
  "createDefaultCategories_loop [] answers = []"
| "createDefaultCategories_loop (category # rest) answers =
     BackendCall ''categories'' ''insert'' # createDefaultCategories_loop rest (tl answers)"

definition createDefaultCategories :: "string option \<Rightarrow> unit response list \<Rightarrow> event list" where
  "createDefaultCategories user answers =
     (case user of
        None \<Rightarrow> []
      | Some uid \<Rightarrow> createDefaultCategories_loop defaultCategories answers)"


subsection \<open>Categories page\<close>


record CategoriesPage =
  cp_categories :: "Category list"
  cp_isAddCategoryOpen :: bool
  cp_isSubmitting :: bool
  cp_currentCategory :: "Category option"



definition cp_handleDeleteCategory ::
  "string option \<Rightarrow> bool \<Rightarrow> string \<Rightarrow> unit response \<Rightarrow> CategoriesPage
     \<Rightarrow> CategoriesPage \<times> event list" where
  "cp_handleDeleteCategory user confirmed row_id answer s =
     (case user of
        None \<Rightarrow> (s, [])
      | Some uid \<Rightarrow>
          if \<not> confirmed then (s, [])
          else
            (case answer of
               Failed message \<Rightarrow>
                 (s, [BackendCall ''categories'' ''delete'',
                      Notify (error_toast ''Error deleting category'' message)])
             | Succeeded _ \<Rightarrow>
                 (s \<lparr> cp_categories :=
                        filter (\<lambda>category. cat_id category \<noteq> row_id) (cp_categories s) \<rparr>,
                  [BackendCall ''categories'' ''delete'',
                   Notify (info_toast ''Category deleted''
                     ''Your category has been deleted successfully.'')])))"

subsection \<open>Budget page\<close>


record BudgetPage =
  bp_categories :: "Category list"
  bp_transactions :: "Transaction list"
  bp_isAddBudgetOpen :: bool
  bp_isSubmitting :: bool
  bp_currentCategory :: "Category option"


subsection \<open>Goals page\<close>






subsection \<open>Investments page\<close>

datatype investment_type = Stocks | Crypto | Bonds | RealEstate | OtherInvestment

datatype risk_level = Low | Medium | High

record Investment =
  inv_id :: string
  inv_name :: string
  inv_type :: investment_type
  inv_amount_invested :: rat
  inv_current_value :: rat
  inv_purchase_date :: string
  inv_user_id :: string
  inv_created_at :: string
  inv_notes :: "string option"
  inv_risk_level :: risk_level






subsection \<open>Transaction form: a category created from inside the form\<close>



subsection \<open>Registration: the profile row\<close>




subsection \<open>The property of a handler\<close>


section \<open>The database: deleting a category\<close>

text \<open>
  The migration declares
  \<^verbatim>\<open>transactions.category_id UUID NOT NULL REFERENCES categories(id) ON DELETE CASCADE\<close>.
  The referential actions of SQL, and the one declared:
\<close>

datatype on_delete = Cascade | SetNull | Restrict | NoAction

definition transactions_category_fk :: on_delete where
  "transactions_category_fk = Cascade"

record Database =
  db_categories :: "Category list"
  db_transactions :: "Transaction list"

text \<open>
  \<^verbatim>\<open>DELETE FROM categories WHERE id = row_id\<close> under a referential action for
  \<^verbatim>\<open>transactions.category_id\<close>.  The column is NOT NULL, so SET NULL fails when a
  transaction references the category, as RESTRICT and NO ACTION do.
\<close>

definition delete_category :: "on_delete \<Rightarrow> string \<Rightarrow> Database \<Rightarrow> Database response" where
  "delete_category action row_id db =
     (let referencing = filter (\<lambda>t. tx_category_id t = row_id) (db_transactions db);
          remaining = filter (\<lambda>c. cat_id c \<noteq> row_id) (db_categories db)
      in case action of
           Cascade \<Rightarrow>
             Succeeded \<lparr> db_categories = remaining,
                         db_transactions = filter (\<lambda>t. tx_category_id t \<noteq> row_id) (db_transactions db) \<rparr>
         | SetNull \<Rightarrow>
             if referencing = [] then Succeeded (db \<lparr> db_categories := remaining \<rparr>)
             else Failed ''null value in column category_id violates not-null constraint''
         | Restrict \<Rightarrow>
             if referencing = [] then Succeeded (db \<lparr> db_categories := remaining \<rparr>)
             else Failed ''update or delete on table categories violates foreign key constraint''
         | NoAction \<Rightarrow>
             if referencing = [] then Succeeded (db \<lparr> db_categories := remaining \<rparr>)
             else Failed ''update or delete on table categories violates foreign key constraint'')"

text \<open>
  The categories page deleting a category against the database: the backend runs the
  delete under the declared action and the handler gets its answer.
\<close>

definition delete_category_flow ::
  "string \<Rightarrow> string \<Rightarrow> Database \<Rightarrow> CategoriesPage \<Rightarrow> Database \<times> CategoriesPage \<times> event list" where
  "delete_category_flow uid row_id db s =
     (case delete_category transactions_category_fk row_id db of
        Failed message \<Rightarrow>
          (db, cp_handleDeleteCategory (Some uid) True row_id (Failed message) s)
      | Succeeded db' \<Rightarrow>
          (db', cp_handleDeleteCategory (Some uid) True row_id (Succeeded ()) s))"

section \<open>Sample data\<close>

definition sample_tx :: "string \<Rightarrow> rat \<Rightarrow> string \<Rightarrow> string \<Rightarrow> string \<Rightarrow> txn_type \<Rightarrow> Transaction" where
  "sample_tx i a d dt c ty =
     \<lparr> tx_id = i, tx_amount = a, tx_description = d, tx_date = dt, tx_category_id = c,
       tx_user_id = ''u1'', tx_created_at = dt, tx_type = ty, tx_is_recurring = False,
       tx_recurring_interval = None, tx_recurring_end_date = None \<rparr>"

definition sample_cat :: "string \<Rightarrow> string \<Rightarrow> txn_type \<Rightarrow> rat option \<Rightarrow> Category" where
  "sample_cat i n ty b =
     \<lparr> cat_id = i, cat_name = n, cat_color = ''#14b8a6'', cat_icon = ''Tag'',
       cat_user_id = ''u1'', cat_created_at = ''2024-01-01T00:00:00.000Z'', cat_type = ty,
       cat_budget = b \<rparr>"

definition sample_goal :: "rat \<Rightarrow> rat \<Rightarrow> SavingsGoal" where
  "sample_goal target current =
     \<lparr> goal_id = ''g1'', goal_name = ''Holiday'', goal_target_amount = target,
       goal_current_amount = current, goal_target_date = None, goal_user_id = ''u1'',
       goal_created_at = ''2024-01-01T00:00:00.000Z'', goal_color = ''#14b8a6'',
       goal_icon = ''PiggyBank'' \<rparr>"

text \<open>
  A sample runtime for dates: the calendar fields written in an ISO string
  \<^verbatim>\<open>YYYY-MM-...\<close>, as a runtime in UTC reads them.
\<close>

definition digit :: "char \<Rightarrow> int option" where
  "digit c =
     (let n = (of_char c :: nat) in if 48 \<le> n \<and> n \<le> 57 then Some (int n - 48) else None)"

definition sample_localDate :: "string \<Rightarrow> (int \<times> int) option" where
  "sample_localDate s =
     (if length s < 7 \<or> s ! 4 \<noteq> CHR ''-'' then None
      else case map digit [s ! 0, s ! 1, s ! 2, s ! 3, s ! 5, s ! 6] of
             [Some a, Some b, Some c, Some d, Some e, Some f] \<Rightarrow>
               if 1 \<le> 10 * e + f \<and> 10 * e + f \<le> 12
               then Some (1000 * a + 100 * b + 10 * c + d, 10 * e + f - 1)
               else None
           | _ \<Rightarrow> None)"

text \<open>
  A sample runtime for formatting: dates print as the first ten characters of the ISO
  string, and \<^verbatim>\<open>toFixed(2)\<close> prints the amount rounded to hundredths (a tie away from
  zero) in decimal digits.
\<close>

definition sample_toLocaleDateString :: "string \<Rightarrow> string" where
  "sample_toLocaleDateString s = take 10 s"

definition sample_format_ymd :: "string \<Rightarrow> string option" where
  "sample_format_ymd s = (case sample_localDate s of None \<Rightarrow> None | Some _ \<Rightarrow> Some (take 10 s))"

definition digit_char :: "nat \<Rightarrow> char" where
  "digit_char d = ''0123456789'' ! d"

function decimal :: "nat \<Rightarrow> string" where
  "decimal n =
     (if n < 10 then [digit_char n] else decimal (n div 10) @ [digit_char (n mod 10)])"
  by pat_completeness auto
termination
  by (relation "measure (\<lambda>n. n)") auto

declare decimal.simps [simp del]

definition sample_toFixed2 :: "rat \<Rightarrow> string" where
  "sample_toFixed2 x =
     (let n = nat \<lfloor>\<bar>x\<bar> * 100 + 1 / 2\<rfloor>
      in (if x < 0 then ''-'' else []) @ decimal (n div 100) @ ''.''
           @ [digit_char (n mod 100 div 10), digit_char (n mod 10)])"

definition example_transactions :: "Transaction list" where
  "example_transactions =
     [sample_tx ''t1'' 100 ''rent'' ''2024-01-15'' ''A'' Expense,
      sample_tx ''t2'' 50 ''food'' ''2024-02-10'' ''A'' Expense]"

definition sample_categories :: "Category list" where
  "sample_categories =
     [sample_cat ''c1'' ''Food'' Expense (Some 200),
      sample_cat ''c2'' ''Salary'' Income None,
      sample_cat ''c3'' ''Transport'' Expense None]"

definition sample_transactions :: "Transaction list" where
  "sample_transactions =
     [sample_tx ''t1'' 25 ''lunch'' ''2024-02-12'' ''c1'' Expense,
      sample_tx ''t2'' 50 ''bus pass'' ''2024-02-10'' ''c3'' Expense,
      sample_tx ''t3'' 1000 ''pay'' ''2024-02-01'' ''c2'' Income,
      sample_tx ''t4'' 100 ''groceries'' ''2024-01-15'' ''c1'' Expense]"


definition sample_db :: Database where
  "sample_db =
     \<lparr> db_categories = [sample_cat ''c1'' ''Food'' Expense None,
                        sample_cat ''c2'' ''Salary'' Income None],
       db_transactions = [sample_tx ''t1'' 25 ''lunch'' ''2024-02-12'' ''c1'' Expense,
                          sample_tx ''t2'' 1000 ''pay'' ''2024-02-01'' ''c2'' Income] \<rparr>"

text \<open>
  The doubles met when 23 is divided by 40 and the quotient multiplied by 100: the double
  next below 0.575, and \<^verbatim>\<open>57.49999999999999\<close>.
\<close>

definition quotient_23_40 :: rat where
  "quotient_23_40 = 5179139571476070 / 2 ^ 53"

definition percent_23_40 :: rat where
  "percent_23_40 = 8092405580431359 / 2 ^ 47"

text \<open>
  The doubles written \<^verbatim>\<open>0.1\<close>, \<^verbatim>\<open>0.2\<close>, \<^verbatim>\<open>2.2\<close>, \<^verbatim>\<open>0.30000000000000004\<close>,
  \<^verbatim>\<open>2.3000000000000003\<close> and \<^verbatim>\<open>2.5000000000000004\<close>.
\<close>

definition double_0_1 :: rat where
  "double_0_1 = 3602879701896397 / 2 ^ 55"

definition double_0_2 :: rat where
  "double_0_2 = 3602879701896397 / 2 ^ 54"

definition double_2_2 :: rat where
  "double_2_2 = 2476979795053773 / 2 ^ 50"

definition double_0_3 :: rat where
  "double_0_3 = 1351079888211149 / 2 ^ 52"

definition double_2_3 :: rat where
  "double_2_3 = 5179139571476071 / 2 ^ 51"

definition double_2_5 :: rat where
  "double_2_5 = 5629499534213121 / 2 ^ 51"

definition rounding_categories :: "Category list" where
  "rounding_categories =
     [sample_cat ''c1'' ''Food'' Expense None,
      sample_cat ''c3'' ''Transport'' Expense None]"

definition rounding_transactions :: "Transaction list" where
  "rounding_transactions =
     [sample_tx ''t1'' double_0_1 ''sweet'' ''2024-02-12'' ''c1'' Expense,
      sample_tx ''t2'' double_0_2 ''toll'' ''2024-02-12'' ''c3'' Expense,
      sample_tx ''t3'' double_2_2 ''bread'' ''2024-02-13'' ''c1'' Expense]"

section \<open>Rounding to doubles\<close>

lemma bin_up_bounds: "1 \<le> x \<Longrightarrow> 2 ^ bin_up x \<le> x \<and> x < 2 ^ Suc (bin_up x)"
proof (induction x rule: bin_up.induct)
  case (1 x)
  show ?case
  proof (cases "2 \<le> x")
    case True
    then have "1 \<le> x / 2" by simp
    with "1.IH" True have "2 ^ bin_up (x / 2) \<le> x / 2 \<and> x / 2 < 2 ^ Suc (bin_up (x / 2))"
      by simp
    moreover have "bin_up x = Suc (bin_up (x / 2))"
      using True by (subst bin_up.simps) simp
    ultimately show ?thesis by simp
  next
    case False
    then have "bin_up x = 0" by (subst bin_up.simps) simp
    with False "1.prems" show ?thesis by simp
  qed
qed

lemma bin_down_bounds:
  "0 < x \<Longrightarrow> x < 1 \<Longrightarrow> 1 \<le> x * 2 ^ bin_down x \<and> x * 2 ^ bin_down x < 2"
proof (induction x rule: bin_down.induct)
  case (1 x)
  have s: "bin_down x = Suc (bin_down (2 * x))"
    using "1.prems" by (subst bin_down.simps) simp
  show ?case
  proof (cases "2 * x < 1")
    case True
    with "1.IH" "1.prems" have "1 \<le> 2 * x * 2 ^ bin_down (2 * x) \<and> 2 * x * 2 ^ bin_down (2 * x) < 2"
      by simp
    with s show ?thesis by (simp add: mult.commute mult.left_commute)
  next
    case False
    then have "bin_down (2 * x) = 0" by (subst bin_down.simps) simp
    with s False "1.prems" show ?thesis by simp
  qed
qed

text \<open>The binary exponent is the one it is meant to be, and no other exponent fits.\<close>

lemma binade_bounds:
  assumes "0 < x"
  shows "2 powi binade x \<le> x \<and> x < 2 powi (binade x + 1)"
proof (cases "1 \<le> x")
  case True
  then show ?thesis
    using bin_up_bounds [of x]
    by (simp add: binade_def power_int_add_1 mult.commute)
next
  case False
  with assms have b: "1 \<le> x * 2 ^ bin_down x" "x * 2 ^ bin_down x < 2"
    using bin_down_bounds [of x] by simp_all
  have p: "(2::rat) powi (- int (bin_down x)) = 1 / 2 ^ bin_down x"
    by (simp add: power_int_minus_divide)
  have q: "(2::rat) powi (- int (bin_down x) + 1) = 2 / 2 ^ bin_down x"
    using power_int_diff [of "2::rat" 1 "int (bin_down x)"] by simp
  have bd: "binade x = - int (bin_down x)"
    using False by (simp add: binade_def)
  show ?thesis
    unfolding bd p q using b by (simp add: field_simps)
qed

lemma binade_unique:
  assumes "0 < x" and "2 powi e \<le> x" and "x < 2 powi (e + 1)"
  shows "binade x = e"
proof -
  from binade_bounds [OF assms(1)]
  have b: "2 powi binade x \<le> x" "x < 2 powi (binade x + 1)" by simp_all
  have "(2::rat) powi e < 2 powi (binade x + 1)"
    using assms(2) b(2) by simp
  then have 1: "e < binade x + 1"
    using power_int_increasing [of "binade x + 1" e "2::rat"] by (cases "e < binade x + 1") auto
  have "(2::rat) powi binade x < 2 powi (e + 1)"
    using assms(3) b(1) by simp
  then have 2: "binade x < e + 1"
    using power_int_increasing [of "e + 1" "binade x" "2::rat"] by (cases "binade x < e + 1") auto
  from 1 2 show ?thesis by simp
qed

lemma round_half_even_of_int: "round_half_even (of_int m) = m"
  by (simp add: round_half_even_def)

lemma round_half_even_near:
  assumes "of_int n - 1 / 2 < q" and "q < of_int n + 1 / 2"
  shows "round_half_even q = n"
proof -
  consider "\<lfloor>q\<rfloor> = n" | "\<lfloor>q\<rfloor> = n - 1"
  proof -
    have "of_int (n - 1) \<le> q" using assms(1) by simp
    then have "n - 1 \<le> \<lfloor>q\<rfloor>" by (simp add: le_floor_iff)
    moreover have "q < of_int (n + 1)" using assms(2) by simp
    then have "\<lfloor>q\<rfloor> < n + 1" by (simp only: floor_less_iff)
    ultimately have "\<lfloor>q\<rfloor> = n \<or> \<lfloor>q\<rfloor> = n - 1" by linarith
    then show ?thesis using that by blast
  qed
  then show ?thesis
  proof cases
    case 1
    then show ?thesis using assms by (simp add: round_half_even_def Let_def)
  next
    case 2
    then show ?thesis using assms by (simp add: round_half_even_def Let_def)
  qed
qed

lemma round_half_even_tie_up:
  assumes "q = of_int n - 1 / 2" and "even n"
  shows "round_half_even q = n"
proof -
  have f: "\<lfloor>rat_of_int n - 1 / 2\<rfloor> = n - 1"
    by (simp add: floor_eq_iff)
  show ?thesis
    unfolding assms(1) round_half_even_def Let_def f using assms(2) by simp
qed

lemma round_half_even_tie_down:
  assumes "q = of_int n + 1 / 2" and "even n"
  shows "round_half_even q = n"
proof -
  have f: "\<lfloor>rat_of_int n + 1 / 2\<rfloor> = n"
    by (simp add: floor_eq_iff)
  show ?thesis
    unfolding assms(1) round_half_even_def Let_def f using assms(2) by simp
qed

text \<open>
  How a rounding is computed by hand: give the binary exponent \<open>e\<close> of \<open>\<bar>x\<bar>\<close> and the
  integer \<open>n\<close> nearest to \<open>x\<close> in units of the spacing.
\<close>

lemma double_of_eval:
  assumes "x \<noteq> 0" and "2 powi e \<le> \<bar>x\<bar>" and "\<bar>x\<bar> < 2 powi (e + 1)"
    and "round_half_even (x / 2 powi (max e (- 1022) - 52)) = n"
    and "\<bar>of_int n * 2 powi (max e (- 1022) - 52)\<bar> < (2::rat) powi 1024"
  shows "double_of x = Num (of_int n * 2 powi (max e (- 1022) - 52))"
proof -
  have "binade \<bar>x\<bar> = e"
    using assms(1,2,3) by (intro binade_unique) simp_all
  then show ?thesis
    using assms(1,4,5) by (simp add: double_of_def Let_def del: power_int_numeral)
qed

text \<open>Integers below \<open>2 ^ 53\<close> in magnitude are doubles.\<close>

lemma double_of_int:
  assumes "\<bar>k\<bar> < 2 ^ 53"
  shows "double_of (of_int k) = Num (of_int k)"
proof (cases "k = 0")
  case True
  then show ?thesis by (simp add: double_of_def)
next
  case False
  let ?x = "of_int k :: rat"
  let ?e = "binade \<bar>?x\<bar>"
  have pos: "0 < \<bar>?x\<bar>" using False by simp
  from binade_bounds [OF pos]
  have b: "2 powi ?e \<le> \<bar>?x\<bar>" "\<bar>?x\<bar> < 2 powi (?e + 1)" by simp_all
  have one: "1 \<le> \<bar>?x\<bar>"
  proof -
    have "1 \<le> \<bar>k\<bar>" using False by simp
    then have "(of_int 1 :: rat) \<le> of_int \<bar>k\<bar>" by (simp only: of_int_le_iff)
    then show ?thesis by simp
  qed
  have e0: "0 \<le> ?e"
  proof (rule ccontr)
    assume "\<not> 0 \<le> ?e"
    then have "?e + 1 \<le> 0" by simp
    then have "(2::rat) powi (?e + 1) \<le> 2 powi 0"
      by (intro power_int_increasing) simp_all
    with b(2) one show False by simp
  qed
  have lt: "\<bar>?x\<bar> < 2 powi 53"
  proof -
    have "\<bar>?x\<bar> = of_int \<bar>k\<bar>" by simp
    also have "\<dots> < of_int (2 ^ 53)" using assms by (simp only: of_int_less_iff)
    finally show ?thesis by simp
  qed
  have e52: "?e \<le> 52"
  proof (rule ccontr)
    assume "\<not> ?e \<le> 52"
    then have "53 \<le> ?e" by simp
    then have "(2::rat) powi 53 \<le> 2 powi ?e"
      by (intro power_int_increasing) simp_all
    with b(1) lt show False by simp
  qed
  have m: "max ?e (- 1022) = ?e" using e0 by simp
  define d where "d = nat (52 - ?e)"
  have u: "(2::rat) powi (?e - 52) = 1 / 2 ^ d"
  proof -
    have "?e - 52 = - int d" using e52 by (simp add: d_def)
    then show ?thesis by (simp add: power_int_minus_divide)
  qed
  have q: "?x / 2 powi (?e - 52) = of_int (k * 2 ^ d)"
    by (simp add: u)
  have r: "round_half_even (?x / 2 powi (?e - 52)) = k * 2 ^ d"
    unfolding q by (rule round_half_even_of_int)
  have y: "of_int (k * 2 ^ d) * (2::rat) powi (?e - 52) = ?x"
    by (simp add: u)
  have big: "\<bar>?x\<bar> < 2 powi 1024"
  proof -
    have "(2::rat) powi 53 \<le> 2 powi 1024"
      by (intro power_int_increasing) simp_all
    with lt show ?thesis by simp
  qed
  have "double_of ?x = Num (of_int (k * 2 ^ d) * 2 powi (max ?e (- 1022) - 52))"
  proof (rule double_of_eval)
    show "?x \<noteq> 0" using False by simp
    show "2 powi ?e \<le> \<bar>?x\<bar>" by (rule b(1))
    show "\<bar>?x\<bar> < 2 powi (?e + 1)" by (rule b(2))
    show "round_half_even (?x / 2 powi (max ?e (- 1022) - 52)) = k * 2 ^ d"
      unfolding m by (rule r)
    show "\<bar>of_int (k * 2 ^ d) * 2 powi (max ?e (- 1022) - 52)\<bar> < (2::rat) powi 1024"
      unfolding m y by (rule big)
  qed
  then show ?thesis by (simp only: m y)
qed

lemma double_of_numeral:
  "numeral n < (2::int) ^ 53 \<Longrightarrow> double_of (numeral n) = Num (numeral n)"
  "numeral n < (2::int) ^ 53 \<Longrightarrow> double_of (- numeral n) = Num (- numeral n)"
  using double_of_int [of "numeral n"] double_of_int [of "- numeral n"] by simp_all

text \<open>
  A left fold over whole, non-negative amounts whose total is below \<open>2 ^ 53\<close> rounds
  nowhere: it is the exact sum.
\<close>

lemma fold_whole_exact:
  assumes "\<forall>x\<in>set xs. f x \<in> \<int> \<and> 0 \<le> f x" and "a \<in> \<int>" and "0 \<le> a"
    and "a + sum_list (map f xs) < 2 ^ 53"
  shows "foldl (\<lambda>sum t. js_add sum (Num (f t))) (Num a) xs = Num (a + sum_list (map f xs))"
  using assms
proof (induction xs arbitrary: a)
  case Nil
  then show ?case by simp
next
  case (Cons x xs)
  have nn: "0 \<le> sum_list (map f xs)"
    using Cons.prems(1) by (intro sum_list_nonneg) auto
  have fx: "f x \<in> \<int>" "0 \<le> f x" using Cons.prems(1) by simp_all
  then have w: "a + f x \<in> \<int>" using Cons.prems(2) by simp
  then obtain k where k: "a + f x = of_int k" by (auto elim: Ints_cases)
  have "a + f x < 2 ^ 53" using Cons.prems(4) nn by simp
  moreover have "0 \<le> a + f x" using fx Cons.prems(3) by simp
  ultimately have "\<bar>k\<bar> < 2 ^ 53"
    unfolding k by (metis abs_of_nonneg of_int_0_le_iff of_int_less_numeral_power_cancel_iff)
  then have "double_of (a + f x) = Num (a + f x)"
    unfolding k by (rule double_of_int)
  moreover have "foldl (\<lambda>sum t. js_add sum (Num (f t))) (Num (a + f x)) xs
      = Num (a + f x + sum_list (map f xs))"
    using Cons.prems w \<open>0 \<le> a + f x\<close> by (intro Cons.IH) (simp_all add: add.assoc)
  ultimately show ?case by (simp add: add.assoc)
qed

lemma reduce_sum_whole_exact:
  assumes "\<forall>x\<in>set xs. f x \<in> \<int> \<and> 0 \<le> f x" and "sum_list (map f xs) < 2 ^ 53"
  shows "reduce_sum f xs = Num (sum_list (map f xs))"
  using fold_whole_exact [of xs f 0] assms by (simp add: reduce_sum_def)

lemma sum_list_filter_le:
  "\<forall>x\<in>set xs. 0 \<le> g x \<Longrightarrow> sum_list (map g (filter P xs)) \<le> sum_list (map g xs)"
  for g :: "'a \<Rightarrow> rat"
  by (induction xs) (auto intro: add_increasing)


text \<open>The roundings met in the examples below.\<close>

lemma Math_round_of_int: "Math_round (Num (of_int k)) = Num (of_int k)"
proof -
  have "\<lfloor>rat_of_int k + 1 / 2\<rfloor> = k"
    by (simp add: floor_eq_iff)
  then show ?thesis by (simp add: Math_round_def)
qed

lemma Math_round_numeral: "Math_round (Num (numeral n)) = Num (numeral n)"
  using Math_round_of_int [of "numeral n"] by simp

lemma double_of_23_40: "double_of (23 / 40) = Num quotient_23_40"
proof -
  have "double_of (23 / 40) = Num (of_int 5179139571476070 * 2 powi (max (- 1) (- 1022) - 52))"
    by (rule double_of_eval) (simp_all add: round_half_even_near)
  then show ?thesis by (simp add: quotient_23_40_def power_int_minus_divide)
qed

lemma double_of_percent_23_40: "double_of (quotient_23_40 * 100) = Num percent_23_40"
proof -
  have "double_of (quotient_23_40 * 100)
      = Num (of_int 8092405580431359 * 2 powi (max 5 (- 1022) - 52))"
    by (rule double_of_eval) (simp_all add: quotient_23_40_def round_half_even_near)
  then show ?thesis by (simp add: percent_23_40_def power_int_minus_divide)
qed

lemma round_percent_23_40: "\<lfloor>percent_23_40 + 1 / 2\<rfloor> = 57"
  by (simp add: percent_23_40_def floor_eq_iff)

lemma double_of_three_quarters: "double_of (3 / 4) = Num (3 / 4)"
proof -
  have "double_of (3 / 4) = Num (of_int 6755399441055744 * 2 powi (max (- 1) (- 1022) - 52))"
    by (rule double_of_eval) (simp_all add: round_half_even_near)
  then show ?thesis by (simp add: power_int_minus_divide)
qed

lemma double_of_three_halves: "double_of (3 / 2) = Num (3 / 2)"
proof -
  have "double_of (3 / 2) = Num (of_int 6755399441055744 * 2 powi (max 0 (- 1022) - 52))"
    by (rule double_of_eval) (simp_all add: round_half_even_near)
  then show ?thesis by (simp add: power_int_minus_divide)
qed

lemma double_of_quarter: "double_of (1 / 4) = Num (1 / 4)"
proof -
  have "double_of (1 / 4) = Num (of_int 4503599627370496 * 2 powi (max (- 2) (- 1022) - 52))"
    by (rule double_of_eval) (simp_all add: round_half_even_near)
  then show ?thesis by (simp add: power_int_minus_divide)
qed

text \<open>
  The decimals 0.1, 0.2 and 2.2 are read as the doubles nearest to them, and these add up
  with a rounding at each step.
\<close>

lemma double_of_tenth: "double_of (1 / 10) = Num double_0_1"
proof -
  have "double_of (1 / 10) = Num (of_int 7205759403792794 * 2 powi (max (- 4) (- 1022) - 52))"
    by (rule double_of_eval) (simp_all add: round_half_even_near)
  then show ?thesis by (simp add: double_0_1_def power_int_minus_divide)
qed

lemma double_of_fifth: "double_of (1 / 5) = Num double_0_2"
proof -
  have "double_of (1 / 5) = Num (of_int 7205759403792794 * 2 powi (max (- 3) (- 1022) - 52))"
    by (rule double_of_eval) (simp_all add: round_half_even_near)
  then show ?thesis by (simp add: double_0_2_def power_int_minus_divide)
qed

lemma double_of_eleven_fifths: "double_of (11 / 5) = Num double_2_2"
proof -
  have "double_of (11 / 5) = Num (of_int 4953959590107546 * 2 powi (max 1 (- 1022) - 52))"
    by (rule double_of_eval) (simp_all add: round_half_even_near)
  then show ?thesis by (simp add: double_2_2_def power_int_minus_divide)
qed

lemma double_of_0_1: "double_of double_0_1 = Num double_0_1"
proof -
  have "double_of double_0_1
      = Num (of_int 7205759403792794 * 2 powi (max (- 4) (- 1022) - 52))"
    by (rule double_of_eval) (simp_all add: double_0_1_def round_half_even_near)
  then show ?thesis by (simp add: double_0_1_def power_int_minus_divide)
qed

lemma double_of_0_2: "double_of double_0_2 = Num double_0_2"
proof -
  have "double_of double_0_2
      = Num (of_int 7205759403792794 * 2 powi (max (- 3) (- 1022) - 52))"
    by (rule double_of_eval) (simp_all add: double_0_2_def round_half_even_near)
  then show ?thesis by (simp add: double_0_2_def power_int_minus_divide)
qed

lemma double_of_0_1_2_2: "double_of (double_0_1 + double_2_2) = Num double_2_3"
proof -
  have "double_of (double_0_1 + double_2_2)
      = Num (of_int 5179139571476071 * 2 powi (max 1 (- 1022) - 52))"
    by (rule double_of_eval)
      (simp_all add: double_0_1_def double_2_2_def round_half_even_near)
  then show ?thesis by (simp add: double_2_3_def power_int_minus_divide)
qed

lemma double_of_0_1_0_2: "double_of (double_0_1 + double_0_2) = Num double_0_3"
proof -
  have "double_of (double_0_1 + double_0_2)
      = Num (of_int 5404319552844596 * 2 powi (max (- 2) (- 1022) - 52))"
    by (rule double_of_eval)
      (simp_all add: double_0_1_def double_0_2_def round_half_even_tie_up)
  then show ?thesis by (simp add: double_0_3_def power_int_minus_divide)
qed

lemma double_of_0_3_2_2: "double_of (double_0_3 + double_2_2) = Num (5 / 2)"
proof -
  have "double_of (double_0_3 + double_2_2)
      = Num (of_int 5629499534213120 * 2 powi (max 1 (- 1022) - 52))"
    by (rule double_of_eval)
      (simp_all add: double_0_3_def double_2_2_def round_half_even_tie_down)
  then show ?thesis by (simp add: power_int_minus_divide)
qed

lemma double_of_2_3_0_2: "double_of (double_2_3 + double_0_2) = Num double_2_5"
proof -
  have "double_of (double_2_3 + double_0_2)
      = Num (of_int 5629499534213121 * 2 powi (max 1 (- 1022) - 52))"
    by (rule double_of_eval)
      (simp_all add: double_2_3_def double_0_2_def round_half_even_near)
  then show ?thesis by (simp add: double_2_5_def power_int_minus_divide)
qed

lemma rounding_order:
  "0 < double_2_3" "0 < double_0_2" "double_0_2 \<le> double_2_3" "\<not> double_2_3 \<le> double_0_2"
  by (simp_all add: double_2_3_def double_0_2_def)

section \<open>Budget status\<close>

lemma js_ge_mono: "js_ge x a \<Longrightarrow> b \<le> a \<Longrightarrow> js_ge x b"
  by (cases x) (simp_all add: js_ge_def)

text \<open>
  C1, the claim as stated, fails.  The percentage is not the exact quotient
  \<open>spent / b * 100\<close> rounded to an integer: the quotient and its product with 100 are
  each rounded to a double before \<^verbatim>\<open>Math.round\<close> sees them.  For one transaction of 23
  against a budget of 40 the exact percentage is 57.5, which rounds to 58; the code
  divides to the double next below 0.575, multiplies to \<^verbatim>\<open>57.49999999999999\<close> and
  shows 57.
\<close>

theorem getBudgetStatus_rounding_counterexample:
  "getBudgetStatus [sample_tx ''t1'' 23 ''lunch'' ''2024-02-10'' ''c1'' Expense]
       (sample_cat ''c1'' ''Food'' Expense (Some 40))
     = Some \<lparr> spent = Num 23, remaining = Num 17, percentage = Num 57, status = ''normal'' \<rparr>
   \<and> \<lfloor>(23 :: rat) / 40 * 100 + 1 / 2\<rfloor> = 58"
  by (simp add: getBudgetStatus_def Let_def reduce_sum_def js_sub_def sample_tx_def
      sample_cat_def double_of_numeral double_of_23_40 double_of_percent_23_40
      Math_round_def round_percent_23_40 js_ge_def)

text \<open>
  C1, amended.  For a category whose budget \<open>b\<close> is set (not null and not 0) and any list
  of transactions, the budget status exists.  Its spent is the running sum, from 0 and in
  list order, of the amounts of the transactions that reference the category, each
  addition rounded to a double; its remaining is \<open>b - spent\<close>, rounded; its percentage
  is \<^verbatim>\<open>Math.round\<close> of the rounded product with 100 of the rounded quotient
  \<open>spent / b\<close>; and its status is danger exactly when the percentage is at least 90,
  warning exactly when it is at least 75 and not at least 90, and normal exactly when
  it is not at least 75.  When the amounts are whole, non-negative numbers with a total
  below \<open>2 ^ 53\<close>, no addition rounds and spent is the exact sum.
\<close>

theorem getBudgetStatus_fields:
  assumes "cat_budget c = Some b" and "b \<noteq> 0"
  shows "\<exists>s. getBudgetStatus ts c = Some s
    \<and> spent s = foldl (\<lambda>sum t. js_add sum (Num (tx_amount t))) (Num 0)
                  (filter (\<lambda>t. tx_category_id t = cat_id c) ts)
    \<and> remaining s = js_sub (Num b) (spent s)
    \<and> percentage s = Math_round (js_mul (js_div (spent s) (Num b)) (Num 100))
    \<and> (status s = ''danger'' \<longleftrightarrow> js_ge (percentage s) 90)
    \<and> (status s = ''warning'' \<longleftrightarrow> js_ge (percentage s) 75 \<and> \<not> js_ge (percentage s) 90)
    \<and> (status s = ''normal'' \<longleftrightarrow> \<not> js_ge (percentage s) 75)
    \<and> ((\<forall>t\<in>set ts. tx_amount t \<in> \<int> \<and> 0 \<le> tx_amount t)
          \<and> sum_list (map tx_amount ts) < 2 ^ 53 \<longrightarrow>
        spent s = Num (sum_list (map tx_amount
                    (filter (\<lambda>t. tx_category_id t = cat_id c) ts))))"
proof -
  let ?own = "filter (\<lambda>t. tx_category_id t = cat_id c) ts"
  let ?spent = "reduce_sum tx_amount ?own"
  let ?p = "Math_round (js_mul (js_div ?spent (Num b)) (Num 100))"
  let ?s = "\<lparr> spent = ?spent, remaining = js_sub (Num b) ?spent, percentage = ?p,
              status = (if js_ge ?p 90 then ''danger''
                        else if js_ge ?p 75 then ''warning'' else ''normal'') \<rparr>"
  have g: "getBudgetStatus ts c = Some ?s"
    using assms by (simp add: getBudgetStatus_def Let_def)
  have m: "js_ge ?p 90 \<Longrightarrow> js_ge ?p 75"
    using js_ge_mono [of ?p 90 75] by simp
  have whole: "?spent = Num (sum_list (map tx_amount ?own))"
    if w: "\<forall>t\<in>set ts. tx_amount t \<in> \<int> \<and> 0 \<le> tx_amount t"
      and l: "sum_list (map tx_amount ts) < 2 ^ 53"
  proof (rule reduce_sum_whole_exact)
    show "\<forall>x\<in>set ?own. tx_amount x \<in> \<int> \<and> 0 \<le> tx_amount x"
      using w by simp
    have "sum_list (map tx_amount ?own) \<le> sum_list (map tx_amount ts)"
      using w by (intro sum_list_filter_le) simp
    with l show "sum_list (map tx_amount ?own) < 2 ^ 53" by simp
  qed
  show ?thesis
  proof (intro exI conjI)
    show "getBudgetStatus ts c = Some ?s" by (rule g)
    show "spent ?s = foldl (\<lambda>sum t. js_add sum (Num (tx_amount t))) (Num 0) ?own"
      by (simp add: reduce_sum_def)
    show "remaining ?s = js_sub (Num b) (spent ?s)" by simp
    show "percentage ?s = Math_round (js_mul (js_div (spent ?s) (Num b)) (Num 100))" by simp
    show "status ?s = ''danger'' \<longleftrightarrow> js_ge (percentage ?s) 90" by simp
    show "status ?s = ''warning'' \<longleftrightarrow> js_ge (percentage ?s) 75 \<and> \<not> js_ge (percentage ?s) 90"
      using m by auto
    show "status ?s = ''normal'' \<longleftrightarrow> \<not> js_ge (percentage ?s) 75"
      using m by auto
    show "(\<forall>t\<in>set ts. tx_amount t \<in> \<int> \<and> 0 \<le> tx_amount t)
          \<and> sum_list (map tx_amount ts) < 2 ^ 53 \<longrightarrow>
        spent ?s = Num (sum_list (map tx_amount ?own))"
      using whole by simp
  qed
qed

theorem getBudgetStatus_fields_witness:
  "\<exists>s. getBudgetStatus
          [sample_tx ''t1'' 100 ''lunch'' ''2024-02-10'' ''c1'' Expense,
           sample_tx ''t2'' 50 ''dinner'' ''2024-02-11'' ''c1'' Expense,
           sample_tx ''t3'' 7 ''bus'' ''2024-02-11'' ''c2'' Expense]
          (sample_cat ''c1'' ''Food'' Expense (Some 200)) = Some s
     \<and> spent s = Num 150 \<and> remaining s = Num 50 \<and> percentage s = Num 75
     \<and> status s = ''warning''"
  using getBudgetStatus_fields [of "sample_cat ''c1'' ''Food'' Expense (Some 200)" 200
      "[sample_tx ''t1'' 100 ''lunch'' ''2024-02-10'' ''c1'' Expense,
        sample_tx ''t2'' 50 ''dinner'' ''2024-02-11'' ''c1'' Expense,
        sample_tx ''t3'' 7 ''bus'' ''2024-02-11'' ''c2'' Expense]"]
  by (auto simp add: sample_cat_def sample_tx_def js_sub_def double_of_numeral
      double_of_three_quarters Math_round_numeral js_ge_def)

text \<open>
  C10. The budget status is null exactly when the budget is null or 0.  Whenever a status
  is returned, the budget is a nonzero number \<open>b\<close>, spent is the running sum of the
  amounts of the transactions that reference the category, and the percentage is
  \<^verbatim>\<open>Math.round\<close> of 100 times the quotient of spent by \<open>b\<close>; for a finite spent
  \<open>a\<close> that quotient is the double nearest to \<open>a / b\<close>: the division never sees a
  zero divisor.
\<close>

theorem getBudgetStatus_null_iff:
  "(getBudgetStatus ts c = None \<longleftrightarrow> cat_budget c = None \<or> cat_budget c = Some 0)
   \<and> (\<forall>s. getBudgetStatus ts c = Some s \<longrightarrow>
         (\<exists>b. cat_budget c = Some b \<and> b \<noteq> 0
            \<and> spent s = foldl (\<lambda>sum t. js_add sum (Num (tx_amount t))) (Num 0)
                          (filter (\<lambda>t. tx_category_id t = cat_id c) ts)
            \<and> percentage s = Math_round (js_mul (js_div (spent s) (Num b)) (Num 100))
            \<and> (\<forall>a. spent s = Num a \<longrightarrow> js_div (spent s) (Num b) = double_of (a / b))))"
  by (auto simp add: getBudgetStatus_def Let_def reduce_sum_def split: option.splits)

theorem getBudgetStatus_null_iff_witness:
  "getBudgetStatus [sample_tx ''t1'' 150 ''lunch'' ''2024-02-10'' ''c1'' Expense]
       (sample_cat ''c1'' ''Food'' Expense (Some 0)) = None
   \<and> getBudgetStatus [sample_tx ''t1'' 150 ''lunch'' ''2024-02-10'' ''c1'' Expense]
       (sample_cat ''c1'' ''Food'' Expense None) = None
   \<and> (\<exists>s. getBudgetStatus [sample_tx ''t1'' 150 ''lunch'' ''2024-02-10'' ''c1'' Expense]
             (sample_cat ''c1'' ''Food'' Expense (Some 200)) = Some s
          \<and> spent s = Num 150 \<and> percentage s = Num 75)"
proof -
  let ?ts = "[sample_tx ''t1'' 150 ''lunch'' ''2024-02-10'' ''c1'' Expense]"
  have z: "getBudgetStatus ?ts (sample_cat ''c1'' ''Food'' Expense (Some 0)) = None"
    using getBudgetStatus_null_iff [of ?ts "sample_cat ''c1'' ''Food'' Expense (Some 0)"]
    by (simp add: sample_cat_def)
  have n: "getBudgetStatus ?ts (sample_cat ''c1'' ''Food'' Expense None) = None"
    using getBudgetStatus_null_iff [of ?ts "sample_cat ''c1'' ''Food'' Expense None"]
    by (simp add: sample_cat_def)
  have "getBudgetStatus ?ts (sample_cat ''c1'' ''Food'' Expense (Some 200)) \<noteq> None"
    using getBudgetStatus_null_iff [of ?ts "sample_cat ''c1'' ''Food'' Expense (Some 200)"]
    by (simp add: sample_cat_def)
  then obtain s
    where s: "getBudgetStatus ?ts (sample_cat ''c1'' ''Food'' Expense (Some 200)) = Some s"
    by auto
  have "spent s = Num 150 \<and> percentage s = Num 75"
    using getBudgetStatus_null_iff [of ?ts "sample_cat ''c1'' ''Food'' Expense (Some 200)"] s
    by (auto simp add: sample_cat_def sample_tx_def double_of_numeral
        double_of_three_quarters Math_round_numeral)
  with z n s show ?thesis by blast
qed

section \<open>Savings goal progress\<close>

lemma Math_min_capped: "\<not> js_gt (Math_min 100 x) 100"
  by (cases x) (simp_all add: Math_min_def js_gt_def)

text \<open>
  C9, the claim as stated, fails for the same reason as C1: the quotient and its product
  with 100 are rounded to doubles before \<^verbatim>\<open>Math.round\<close>.  A goal of 40 with 23 saved
  shows 57 on the goal card and on the dashboard, where
  \<open>min(100, round(23 / 40 * 100))\<close> is 58.
\<close>

theorem goal_percentage_rounding_counterexample:
  "GoalCard_percentage (sample_goal 40 23) = Num 57
   \<and> Dashboard_goal_percentage (sample_goal 40 23) = Num 57
   \<and> min 100 \<lfloor>(23 :: rat) / 40 * 100 + 1 / 2\<rfloor> = 58"
  by (simp add: GoalCard_percentage_def Dashboard_goal_percentage_def sample_goal_def
      double_of_23_40 double_of_percent_23_40 Math_round_def round_percent_23_40 Math_min_def)

text \<open>
  C9, amended.  For a goal with a nonzero target amount, the percentage on the goal card
  and the one on the dashboard are both \<^verbatim>\<open>Math.min(100, Math.round(q * 100))\<close>, where
  \<open>q\<close> is the double nearest to \<open>current / target\<close> and the product is rounded to a
  double too; neither is ever greater than 100.
\<close>

theorem goal_percentage_capped:
  assumes "goal_target_amount g \<noteq> 0"
  shows "GoalCard_percentage g =
           Math_min 100 (Math_round
             (js_mul (double_of (goal_current_amount g / goal_target_amount g)) (Num 100)))
    \<and> Dashboard_goal_percentage g =
           Math_min 100 (Math_round
             (js_mul (double_of (goal_current_amount g / goal_target_amount g)) (Num 100)))
    \<and> \<not> js_gt (GoalCard_percentage g) 100
    \<and> \<not> js_gt (Dashboard_goal_percentage g) 100"
  using assms
  by (simp add: GoalCard_percentage_def Dashboard_goal_percentage_def Math_min_capped)

theorem goal_percentage_capped_witness:
  "GoalCard_percentage (sample_goal 1000 1500) = Num 100
   \<and> Dashboard_goal_percentage (sample_goal 1000 1500) = Num 100
   \<and> GoalCard_percentage (sample_goal 400 100) = Num 25
   \<and> Dashboard_goal_percentage (sample_goal 400 100) = Num 25"
  using goal_percentage_capped [of "sample_goal 1000 1500"]
    goal_percentage_capped [of "sample_goal 400 100"]
  by (simp add: sample_goal_def double_of_three_halves double_of_quarter double_of_numeral
      Math_round_numeral Math_min_def)

section \<open>Trailing months\<close>

lemma getLastNMonths_loop_eq:
  "i \<le> n \<Longrightarrow> getLastNMonths_loop today n i result = result @ map (month_entry today) [i..<n]"
proof (induction today n i result rule: getLastNMonths_loop.induct)
  case (1 today n i result)
  show ?case
  proof (cases "i < n")
    case True
    then have "getLastNMonths_loop today n i result
        = getLastNMonths_loop today n (Suc i) (result @ [month_entry today i])"
      by (subst getLastNMonths_loop.simps) simp
    also have "\<dots> = (result @ [month_entry today i]) @ map (month_entry today) [Suc i..<n]"
      using True "1.IH" by simp
    finally show ?thesis
      using True by (simp add: upt_conv_Cons)
  next
    case False
    with "1.prems" have "i = n" by simp
    then show ?thesis
      by (subst getLastNMonths_loop.simps) simp
  qed
qed

lemma getLastNMonths_eq: "getLastNMonths today n = rev (map (month_entry today) [0..<n])"
  by (simp add: getLastNMonths_def getLastNMonths_loop_eq)

lemma getLastNMonths_length: "length (getLastNMonths today n) = n"
  by (simp add: getLastNMonths_eq)

lemma getLastNMonths_nth:
  assumes "i < n"
  shows "getLastNMonths today n ! i = month_entry today (n - 1 - i)"
proof -
  have "getLastNMonths today n ! i = map (month_entry today) [0..<n] ! (n - Suc i)"
    using assms by (simp add: getLastNMonths_eq rev_nth)
  also have "\<dots> = month_entry today (n - 1 - i)"
    using assms by simp
  finally show ?thesis .
qed

text \<open>
  Months are numbered in a line: month \<open>12 * year + index\<close>.  The entry for the counter
  \<open>j\<close> is the month \<open>j\<close> places before the clock's.
\<close>

lemma month_entry_linear:
  assumes "100 \<le> now_year today"
  shows "month_entry today j =
    \<lparr> mi_month = (12 * now_year today + now_month today - int j) mod 12 + 1,
      mi_year = (12 * now_year today + now_month today - int j) div 12,
      mi_name = month_short ((12 * now_year today + now_month today - int j) mod 12) \<rparr>"
proof -
  have d: "(12 * now_year today + now_month today - int j) div 12
      = now_year today + (now_month today - int j) div 12"
    by (simp add: algebra_simps div_mult_self2)
  have m: "(12 * now_year today + now_month today - int j) mod 12
      = (now_month today - int j) mod 12"
    by (metis add_diff_eq mod_mult_self4)
  show ?thesis
    using assms by (simp add: month_entry_def Date_year_month_def Let_def d m)
qed

section \<open>Monthly summary\<close>

lemma month_filter_eq:
  "filter (\<lambda>t. tx_type t = ty)
     (filter (\<lambda>t. case localDate (tx_date t) of None \<Rightarrow> False
                  | Some date \<Rightarrow> snd date + 1 = mm \<and> fst date = yy) ts)
   = filter (\<lambda>t. tx_type t = ty \<and> localDate (tx_date t) = Some (yy, mm - 1)) ts"
  for mm yy :: int
  by (induction ts) (auto split: option.splits)

lemma month_stat_sums:
  "month_stat localDate ts month =
    \<lparr> m_name = mi_name month,
      m_income = reduce_sum tx_amount (filter (\<lambda>t. tx_type t = Income
                  \<and> localDate (tx_date t) = Some (mi_year month, mi_month month - 1)) ts),
      m_expenses = reduce_sum tx_amount (filter (\<lambda>t. tx_type t = Expense
                  \<and> localDate (tx_date t) = Some (mi_year month, mi_month month - 1)) ts),
      m_balance =
        js_sub
          (reduce_sum tx_amount (filter (\<lambda>t. tx_type t = Income
                  \<and> localDate (tx_date t) = Some (mi_year month, mi_month month - 1)) ts))
          (reduce_sum tx_amount (filter (\<lambda>t. tx_type t = Expense
                  \<and> localDate (tx_date t) = Some (mi_year month, mi_month month - 1)) ts)) \<rparr>"
  unfolding month_stat_def Let_def month_filter_eq ..

lemma monthlyStats_nth:
  assumes "100 \<le> now_year today" and "i < n"
  shows "monthlyStats localDate (getLastNMonths today n) ts ! i =
    (let k = 12 * now_year today + now_month today - int (n - 1 - i);
         inc = foldl (\<lambda>sum t. js_add sum (Num (tx_amount t))) (Num 0)
                 (filter (\<lambda>t. tx_type t = Income
                    \<and> localDate (tx_date t) = Some (k div 12, k mod 12)) ts);
         exp = foldl (\<lambda>sum t. js_add sum (Num (tx_amount t))) (Num 0)
                 (filter (\<lambda>t. tx_type t = Expense
                    \<and> localDate (tx_date t) = Some (k div 12, k mod 12)) ts)
     in \<lparr> m_name = month_short (k mod 12), m_income = inc, m_expenses = exp,
          m_balance = js_sub inc exp \<rparr>)"
proof -
  have "monthlyStats localDate (getLastNMonths today n) ts ! i
      = month_stat localDate ts (month_entry today (n - 1 - i))"
    using assms(2)
    by (simp add: monthlyStats_def getLastNMonths_length getLastNMonths_nth)
  then show ?thesis
    by (simp add: month_stat_sums month_entry_linear [OF assms(1)] Let_def reduce_sum_def)
qed

lemma process_data_monthly:
  "d_transactions s \<noteq> [] \<Longrightarrow>
   d_monthlyData (process_data localDate today s)
     = monthlyStats localDate (getLastNMonths today 6) (d_transactions s)"
  by (simp add: process_data_def Let_def)

lemma process_data_empty: "d_transactions s = [] \<Longrightarrow> process_data localDate today s = s"
  by (simp add: process_data_def)

text \<open>
  C2, the claim as stated, fails on the dashboard: the effect that computes the monthly
  summary returns at once when there is no transaction, so for the empty transaction list
  no bucket is produced where six were asked for.
\<close>

theorem monthly_summary_empty_counterexample:
  "d_transactions Dashboard_initial = []
   \<and> d_monthlyData (process_data sample_localDate \<lparr> now_year = 2024, now_month = 1 \<rparr>
        Dashboard_initial) = []
   \<and> length (d_monthlyData (process_data sample_localDate \<lparr> now_year = 2024, now_month = 1 \<rparr>
        Dashboard_initial)) \<noteq> 6"
  by (simp add: process_data_def Dashboard_initial_def)

text \<open>
  C2, amended.  For every N and every transaction list, the summary over the N trailing
  months has exactly N buckets; bucket \<open>i\<close> (from 0, the oldest) is the calendar month
  \<open>N - 1 - i\<close> places before the clock's month, carries that month's short name, and its
  income (expense) total is the running sum, from 0 and in list order, of the amounts of
  the income (expense) transactions whose date falls in that calendar month, each addition
  rounded to a double; it is 0 when there is none.  The balance is the rounded difference
  of the two.  The dashboard computes this summary for N = 6 whenever it holds at least
  one transaction, and leaves its state untouched when it holds none.
\<close>

theorem monthly_summary_buckets:
  assumes "100 \<le> now_year today"
  shows "length (monthlyStats localDate (getLastNMonths today n) ts) = n
    \<and> (\<forall>i<n. monthlyStats localDate (getLastNMonths today n) ts ! i =
          (let k = 12 * now_year today + now_month today - int (n - 1 - i);
               inc = foldl (\<lambda>sum t. js_add sum (Num (tx_amount t))) (Num 0)
                       (filter (\<lambda>t. tx_type t = Income
                          \<and> localDate (tx_date t) = Some (k div 12, k mod 12)) ts);
               exp = foldl (\<lambda>sum t. js_add sum (Num (tx_amount t))) (Num 0)
                       (filter (\<lambda>t. tx_type t = Expense
                          \<and> localDate (tx_date t) = Some (k div 12, k mod 12)) ts)
           in \<lparr> m_name = month_short (k mod 12), m_income = inc, m_expenses = exp,
                m_balance = js_sub inc exp \<rparr>))
    \<and> (d_transactions s \<noteq> [] \<longrightarrow>
          d_monthlyData (process_data localDate today s)
            = monthlyStats localDate (getLastNMonths today 6) (d_transactions s))
    \<and> (d_transactions s = [] \<longrightarrow> process_data localDate today s = s)"
proof (intro conjI allI impI)
  show "length (monthlyStats localDate (getLastNMonths today n) ts) = n"
    by (simp add: monthlyStats_def getLastNMonths_length)
next
  fix i assume "i < n"
  with assms show "monthlyStats localDate (getLastNMonths today n) ts ! i =
          (let k = 12 * now_year today + now_month today - int (n - 1 - i);
               inc = foldl (\<lambda>sum t. js_add sum (Num (tx_amount t))) (Num 0)
                       (filter (\<lambda>t. tx_type t = Income
                          \<and> localDate (tx_date t) = Some (k div 12, k mod 12)) ts);
               exp = foldl (\<lambda>sum t. js_add sum (Num (tx_amount t))) (Num 0)
                       (filter (\<lambda>t. tx_type t = Expense
                          \<and> localDate (tx_date t) = Some (k div 12, k mod 12)) ts)
           in \<lparr> m_name = month_short (k mod 12), m_income = inc, m_expenses = exp,
                m_balance = js_sub inc exp \<rparr>)"
    by (rule monthlyStats_nth)
next
  assume "d_transactions s \<noteq> []"
  then show "d_monthlyData (process_data localDate today s)
      = monthlyStats localDate (getLastNMonths today 6) (d_transactions s)"
    by (rule process_data_monthly)
next
  assume "d_transactions s = []"
  then show "process_data localDate today s = s"
    by (rule process_data_empty)
qed

theorem monthly_summary_buckets_witness:
  "monthlyStats sample_localDate (getLastNMonths \<lparr> now_year = 2024, now_month = 1 \<rparr> 2)
      example_transactions
     = [\<lparr> m_name = ''Jan'', m_income = Num 0, m_expenses = Num 100, m_balance = Num (- 100) \<rparr>,
        \<lparr> m_name = ''Feb'', m_income = Num 0, m_expenses = Num 50, m_balance = Num (- 50) \<rparr>]
   \<and> d_monthlyData (process_data sample_localDate \<lparr> now_year = 2024, now_month = 1 \<rparr>
        (Dashboard_initial \<lparr> d_transactions := example_transactions \<rparr>))
     = [\<lparr> m_name = ''Sep'', m_income = Num 0, m_expenses = Num 0, m_balance = Num 0 \<rparr>,
        \<lparr> m_name = ''Oct'', m_income = Num 0, m_expenses = Num 0, m_balance = Num 0 \<rparr>,
        \<lparr> m_name = ''Nov'', m_income = Num 0, m_expenses = Num 0, m_balance = Num 0 \<rparr>,
        \<lparr> m_name = ''Dec'', m_income = Num 0, m_expenses = Num 0, m_balance = Num 0 \<rparr>,
        \<lparr> m_name = ''Jan'', m_income = Num 0, m_expenses = Num 100, m_balance = Num (- 100) \<rparr>,
        \<lparr> m_name = ''Feb'', m_income = Num 0, m_expenses = Num 50, m_balance = Num (- 50) \<rparr>]"
proof -
  let ?today = "\<lparr> now_year = 2024, now_month = 1 \<rparr>"
  let ?s = "Dashboard_initial \<lparr> d_transactions := example_transactions \<rparr>"
  let ?jan = "\<lparr> m_name = ''Jan'', m_income = Num 0, m_expenses = Num 100,
                 m_balance = Num (- 100) \<rparr>"
  let ?feb = "\<lparr> m_name = ''Feb'', m_income = Num 0, m_expenses = Num 50,
                 m_balance = Num (- 50) \<rparr>"
  have y: "100 \<le> now_year ?today" by simp
  note b = monthly_summary_buckets [OF y, of sample_localDate _ example_transactions ?s]
  have ne: "d_transactions ?s \<noteq> []"
    by (simp add: example_transactions_def)
  have dates: "sample_localDate ''2024-01-15'' = Some (2024, 0)"
    "sample_localDate ''2024-02-10'' = Some (2024, 1)"
    by (simp_all add: sample_localDate_def digit_def)
  have zero: "double_of 0 = Num 0"
    by (simp add: double_of_def)
  have two: "monthlyStats sample_localDate (getLastNMonths ?today 2) example_transactions
     = [?jan, ?feb]"
  proof (rule nth_equalityI)
    show "length (monthlyStats sample_localDate (getLastNMonths ?today 2) example_transactions)
      = length [?jan, ?feb]"
      using b [of 2] by simp
  next
    fix i assume "i < length (monthlyStats sample_localDate (getLastNMonths ?today 2) example_transactions)"
    then have "i < 2" using b [of 2] by simp
    then consider "i = 0" | "i = 1" by linarith
    then show "monthlyStats sample_localDate (getLastNMonths ?today 2) example_transactions ! i
      = [?jan, ?feb] ! i"
    proof cases
      case 1
      then show ?thesis
        using b [of 2]
        by (simp add: example_transactions_def sample_tx_def dates month_short_def
            js_sub_def double_of_numeral zero)
    next
      case 2
      then show ?thesis
        using b [of 2]
        by (simp add: example_transactions_def sample_tx_def dates month_short_def
            js_sub_def double_of_numeral zero)
    qed
  qed
  have six: "monthlyStats sample_localDate (getLastNMonths ?today 6) example_transactions
     = [\<lparr> m_name = ''Sep'', m_income = Num 0, m_expenses = Num 0, m_balance = Num 0 \<rparr>,
        \<lparr> m_name = ''Oct'', m_income = Num 0, m_expenses = Num 0, m_balance = Num 0 \<rparr>,
        \<lparr> m_name = ''Nov'', m_income = Num 0, m_expenses = Num 0, m_balance = Num 0 \<rparr>,
        \<lparr> m_name = ''Dec'', m_income = Num 0, m_expenses = Num 0, m_balance = Num 0 \<rparr>,
        ?jan, ?feb]"
  proof -
    have u: "[0..<6] = [0, 1, 2, 3, 4, 5 :: nat]"
      by code_simp
    show ?thesis
      by (simp add: getLastNMonths_eq u month_entry_def Date_year_month_def month_short_def
          monthlyStats_def month_stat_def example_transactions_def sample_tx_def dates
          reduce_sum_def js_sub_def double_of_numeral zero Let_def)
  qed
  show ?thesis
    using b [of 2] ne two six by simp
qed

section \<open>Category summary\<close>

lemma sum_list_insort_key:
  "sum_list (map g (insort_key f x xs)) = g x + sum_list (map g xs)"
  for g :: "'a \<Rightarrow> rat"
  by (induction xs) simp_all

lemma sum_list_sort_key: "sum_list (map g (sort_key f xs)) = sum_list (map g xs)"
  for g :: "'a \<Rightarrow> rat"
  by (induction xs) (simp_all add: sum_list_insort_key)

lemma sum_list_filter_pos:
  "\<forall>x\<in>set xs. 0 \<le> g x \<Longrightarrow> sum_list (map g (filter (\<lambda>x. 0 < g x) xs)) = sum_list (map g xs)"
  for g :: "'a \<Rightarrow> rat"
  by (induction xs) auto

lemma sum_list_filter_disj:
  "\<forall>x\<in>set xs. \<not> (P x \<and> Q x) \<Longrightarrow>
   sum_list (map g (filter (\<lambda>x. P x \<or> Q x) xs))
     = sum_list (map g (filter P xs)) + sum_list (map g (filter Q xs))"
  for g :: "'a \<Rightarrow> rat"
  by (induction xs) auto

lemma e_value_category_entry:
  "e_value (category_entry ts c)
     = reduce_sum tx_amount (filter (\<lambda>t. tx_category_id t = cat_id c) ts)"
  by (simp add: category_entry_def)

lemma sum_by_reference:
  "distinct (map cat_id cs) \<Longrightarrow>
   sum_list (map (\<lambda>c. sum_list (map tx_amount (filter (\<lambda>t. tx_category_id t = cat_id c) ts))) cs)
     = sum_list (map tx_amount (filter (\<lambda>t. tx_category_id t \<in> cat_id ` set cs) ts))"
proof (induction cs)
  case Nil
  then show ?case by simp
next
  case (Cons c cs)
  have excl: "\<forall>t\<in>set ts. \<not> (tx_category_id t = cat_id c \<and> tx_category_id t \<in> cat_id ` set cs)"
    using Cons.prems by auto
  have "sum_list (map tx_amount (filter (\<lambda>t. tx_category_id t \<in> cat_id ` set (c # cs)) ts))
      = sum_list (map tx_amount
          (filter (\<lambda>t. tx_category_id t = cat_id c \<or> tx_category_id t \<in> cat_id ` set cs) ts))"
    by simp
  also have "\<dots> = sum_list (map tx_amount (filter (\<lambda>t. tx_category_id t = cat_id c) ts))
      + sum_list (map tx_amount (filter (\<lambda>t. tx_category_id t \<in> cat_id ` set cs) ts))"
    using excl by (rule sum_list_filter_disj)
  finally show ?case
    using Cons by simp
qed

text \<open>
  The values of a summary over the categories \<open>cs\<close>, when each category's total is the
  exact sum of its amounts and no amount is negative: finite numbers that add up to the
  amounts of the transactions filed under \<open>cs\<close>.
\<close>

lemma summary_values:
  assumes "distinct (map cat_id cs)" and "\<forall>t\<in>set ts. 0 \<le> tx_amount t"
    and "\<forall>c\<in>set cs.
           reduce_sum tx_amount (filter (\<lambda>t. tx_category_id t = cat_id c) ts)
             = Num (sum_list (map tx_amount (filter (\<lambda>t. tx_category_id t = cat_id c) ts)))"
  shows "\<exists>vs. map e_value (sort_by_value_desc
            (filter (\<lambda>e. js_gt (e_value e) 0) (map (category_entry ts) cs))) = map Num vs
     \<and> sum_list vs
         = sum_list (map tx_amount (filter (\<lambda>t. tx_category_id t \<in> cat_id ` set cs) ts))"
proof -
  define total where
    "total c = sum_list (map tx_amount (filter (\<lambda>t. tx_category_id t = cat_id c) ts))"
    for c :: Category
  define fv where "fv e = (case e_value e of Num r \<Rightarrow> r | _ \<Rightarrow> 0)"
    for e :: CategoryEntry
  let ?all = "map (category_entry ts) cs"
  let ?kept = "filter (\<lambda>e. js_gt (e_value e) 0) ?all"
  let ?sorted = "sort_by_value_desc ?kept"
  have ev: "e_value (category_entry ts c) = Num (total c)" if "c \<in> set cs" for c
    using assms(3) that by (simp add: e_value_category_entry total_def)
  have nn: "0 \<le> total c" for c
    unfolding total_def using assms(2) by (intro sum_list_nonneg) auto
  have num: "e_value e = Num (fv e)" if "e \<in> set ?all" for e
    using that ev by (auto simp add: fv_def)
  have fvc: "fv (category_entry ts c) = total c" if "c \<in> set cs" for c
    using ev [OF that] by (simp add: fv_def)
  have set_sorted: "set ?sorted \<subseteq> set ?all"
    by (auto simp add: sort_by_value_desc_def)
  have vals: "map e_value ?sorted = map Num (map fv ?sorted)"
    using set_sorted num by (auto simp add: comp_def)
  have kept: "?kept = filter (\<lambda>e. 0 < fv e) ?all"
    by (rule filter_cong [OF refl]) (simp add: num js_gt_def)
  have "sum_list (map fv ?sorted) = sum_list (map fv ?kept)"
    by (simp add: sort_by_value_desc_def sum_list_sort_key)
  also have "\<dots> = sum_list (map fv (filter (\<lambda>e. 0 < fv e) ?all))"
    by (simp only: kept)
  also have "\<dots> = sum_list (map fv ?all)"
    by (rule sum_list_filter_pos) (auto simp add: fvc nn)
  also have "\<dots> = sum_list (map total cs)"
    by (simp add: comp_def fvc cong: map_cong)
  also have "\<dots> = sum_list (map tx_amount (filter (\<lambda>t. tx_category_id t \<in> cat_id ` set cs) ts))"
    unfolding total_def using assms(1) by (rule sum_by_reference)
  finally show ?thesis
    using vals by blast
qed

lemma expense_reference_iff:
  assumes "distinct (map cat_id cs)"
    and "\<exists>c\<in>set cs. cat_id c = tx_category_id t \<and> cat_type c = tx_type t"
  shows "tx_category_id t \<in> cat_id ` set (filter (\<lambda>c. cat_type c = Expense) cs)
     \<longleftrightarrow> tx_type t = Expense"
proof -
  from assms(2) obtain c
    where c: "c \<in> set cs" "cat_id c = tx_category_id t" "cat_type c = tx_type t"
    by auto
  have inj: "inj_on cat_id (set cs)"
    using assms(1) by (simp add: distinct_map)
  show ?thesis
  proof
    assume "tx_category_id t \<in> cat_id ` set (filter (\<lambda>c. cat_type c = Expense) cs)"
    then obtain c' where c': "c' \<in> set cs" "cat_type c' = Expense" "cat_id c' = tx_category_id t"
      by auto
    with c inj have "c' = c" by (simp add: inj_on_def)
    with c c' show "tx_type t = Expense" by simp
  next
    assume "tx_type t = Expense"
    with c show "tx_category_id t \<in> cat_id ` set (filter (\<lambda>c. cat_type c = Expense) cs)"
      by force
  qed
qed

text \<open>
  C3, amended.  When category ids are distinct, every transaction is filed under a listed
  category of its own type, no amount is negative, and each category's total, as the
  code adds it up, is the exact sum of the category's amounts (no addition is rounded: so
  it is when the amounts are whole numbers with a total below \<open>2 ^ 53\<close>), then the totals
  of the dashboard's expense breakdown are finite numbers that add up to the sum of the
  amounts of all expense transactions, and the totals of the reports page's category
  distribution (taken over the categories of both types) add up to the sum of the amounts
  of all the transactions it is given.
\<close>

theorem category_summary_total:
  assumes "distinct (map cat_id cs)"
    and "\<forall>t\<in>set ts. \<exists>c\<in>set cs. cat_id c = tx_category_id t \<and> cat_type c = tx_type t"
    and "\<forall>t\<in>set ts. 0 \<le> tx_amount t"
    and "\<forall>c\<in>set cs.
           foldl (\<lambda>sum t. js_add sum (Num (tx_amount t))) (Num 0)
               (filter (\<lambda>t. tx_category_id t = cat_id c) ts)
             = Num (sum_list (map tx_amount (filter (\<lambda>t. tx_category_id t = cat_id c) ts)))"
  shows "(\<exists>vs. map e_value (expenseByCategory cs ts) = map Num vs
            \<and> sum_list vs = sum_list (map tx_amount (filter (\<lambda>t. tx_type t = Expense) ts)))
    \<and> (\<exists>vs. map e_value (categoryData cs ts) = map Num vs
            \<and> sum_list vs = sum_list (map tx_amount ts))"
proof
  have e: "\<forall>c\<in>set cs.
           reduce_sum tx_amount (filter (\<lambda>t. tx_category_id t = cat_id c) ts)
             = Num (sum_list (map tx_amount (filter (\<lambda>t. tx_category_id t = cat_id c) ts)))"
    using assms(4) by (simp add: reduce_sum_def)
  have d: "distinct (map cat_id (filter (\<lambda>c. cat_type c = Expense) cs))"
    using assms(1) by (rule distinct_map_filter)
  have fe: "filter (\<lambda>t. tx_category_id t
            \<in> cat_id ` set (filter (\<lambda>c. cat_type c = Expense) cs)) ts
      = filter (\<lambda>t. tx_type t = Expense) ts"
    using assms(1,2) by (intro filter_cong refl expense_reference_iff) auto
  have "\<exists>vs. map e_value (sort_by_value_desc (filter (\<lambda>e. js_gt (e_value e) 0)
            (map (category_entry ts) (filter (\<lambda>c. cat_type c = Expense) cs)))) = map Num vs
     \<and> sum_list vs = sum_list (map tx_amount (filter (\<lambda>t. tx_category_id t
            \<in> cat_id ` set (filter (\<lambda>c. cat_type c = Expense) cs)) ts))"
    using d assms(3) e by (intro summary_values) simp_all
  then show "\<exists>vs. map e_value (expenseByCategory cs ts) = map Num vs
            \<and> sum_list vs = sum_list (map tx_amount (filter (\<lambda>t. tx_type t = Expense) ts))"
    unfolding expenseByCategory_def fe .
  have fa: "filter (\<lambda>t. tx_category_id t \<in> cat_id ` set cs) ts = ts"
    using assms(2) by (force simp add: filter_id_conv)
  have "\<exists>vs. map e_value (sort_by_value_desc (filter (\<lambda>e. js_gt (e_value e) 0)
            (map (category_entry ts) cs))) = map Num vs
     \<and> sum_list vs = sum_list (map tx_amount (filter (\<lambda>t. tx_category_id t \<in> cat_id ` set cs) ts))"
    using assms(1,3) e by (rule summary_values)
  then show "\<exists>vs. map e_value (categoryData cs ts) = map Num vs
            \<and> sum_list vs = sum_list (map tx_amount ts)"
    unfolding categoryData_def fa .
qed

lemma value_rank_geq:
  "x \<noteq> NaN \<Longrightarrow> y \<noteq> NaN \<Longrightarrow> value_rank x \<le> value_rank y \<Longrightarrow> js_geq x y"
  by (cases x; cases y) (simp_all add: value_rank_def)

lemma js_gt_not_NaN: "js_gt x c \<Longrightarrow> x \<noteq> NaN"
  by (auto simp add: js_gt_def)

lemma js_gt_not_zero: "js_gt x 0 \<Longrightarrow> x \<noteq> Num 0"
  by (auto simp add: js_gt_def)

text \<open>
  C7. In the dashboard's expense breakdown and in the reports page's category
  distribution, no entry has total 0 and the totals are in descending order: each is
  \<^verbatim>\<open>>=\<close> every one after it.
\<close>

theorem category_summary_sorted:
  "Num 0 \<notin> set (map e_value (expenseByCategory cs ts))
   \<and> sorted_wrt js_geq (map e_value (expenseByCategory cs ts))
   \<and> Num 0 \<notin> set (map e_value (categoryData cs ts))
   \<and> sorted_wrt js_geq (map e_value (categoryData cs ts))"
proof -
  have s: "sorted_wrt js_geq
      (map e_value (sort_by_value_desc (filter (\<lambda>e. js_gt (e_value e) 0) es)))" for es
  proof -
    let ?kept = "filter (\<lambda>e. js_gt (e_value e) 0) es"
    let ?sorted = "sort_by_value_desc ?kept"
    have "sorted (map (\<lambda>e. value_rank (e_value e)) ?sorted)"
      unfolding sort_by_value_desc_def by (rule sorted_sort_key)
    then have ranks: "sorted_wrt (\<lambda>a b. value_rank (e_value a) \<le> value_rank (e_value b))
        ?sorted"
      by (simp only: sorted_map)
    have kept: "e_value a \<noteq> NaN" if "a \<in> set ?sorted" for a
    proof -
      from that have "js_gt (e_value a) 0"
        by (simp add: sort_by_value_desc_def)
      then show ?thesis by (rule js_gt_not_NaN)
    qed
    have "sorted_wrt (\<lambda>a b. js_geq (e_value a) (e_value b)) ?sorted"
    proof (rule sorted_wrt_mono_rel [OF _ ranks])
      fix a b
      assume "a \<in> set ?sorted" and "b \<in> set ?sorted"
        and "value_rank (e_value a) \<le> value_rank (e_value b)"
      then show "js_geq (e_value a) (e_value b)"
        by (intro value_rank_geq kept)
    qed
    then show ?thesis
      by (simp only: sorted_wrt_map)
  qed
  have z: "Num 0 \<notin> set (map e_value
      (sort_by_value_desc (filter (\<lambda>e. js_gt (e_value e) 0) es)))" for es
  proof
    assume "Num 0 \<in> set (map e_value
      (sort_by_value_desc (filter (\<lambda>e. js_gt (e_value e) 0) es)))"
    then obtain e
      where e: "e \<in> set (sort_by_value_desc (filter (\<lambda>e. js_gt (e_value e) 0) es))"
        and v: "e_value e = Num 0"
      by (auto simp only: set_map image_iff)
    from e have "js_gt (e_value e) 0"
      by (simp add: sort_by_value_desc_def)
    with v show False
      by (simp add: js_gt_def)
  qed
  show ?thesis
    unfolding expenseByCategory_def categoryData_def
    by (intro conjI s z)
qed

theorem category_summary_total_witness:
  "(\<exists>vs. map e_value (expenseByCategory sample_categories sample_transactions) = map Num vs
       \<and> sum_list vs = 175)
   \<and> (\<exists>vs. map e_value (categoryData sample_categories sample_transactions) = map Num vs
       \<and> sum_list vs = 1175)"
proof -
  have d: "distinct (map cat_id sample_categories)"
    by (simp add: sample_categories_def sample_cat_def)
  have f: "\<forall>t\<in>set sample_transactions. \<exists>c\<in>set sample_categories.
      cat_id c = tx_category_id t \<and> cat_type c = tx_type t"
    by (simp add: sample_categories_def sample_transactions_def sample_cat_def sample_tx_def)
  have p: "\<forall>t\<in>set sample_transactions. 0 \<le> tx_amount t"
    by (simp add: sample_transactions_def sample_tx_def)
  have e: "\<forall>c\<in>set sample_categories.
           foldl (\<lambda>sum t. js_add sum (Num (tx_amount t))) (Num 0)
               (filter (\<lambda>t. tx_category_id t = cat_id c) sample_transactions)
             = Num (sum_list (map tx_amount
                 (filter (\<lambda>t. tx_category_id t = cat_id c) sample_transactions)))"
    by (simp add: sample_categories_def sample_transactions_def sample_cat_def sample_tx_def
        double_of_numeral)
  show ?thesis
    using category_summary_total [OF d f p e]
    by (simp add: sample_transactions_def sample_tx_def)
qed

text \<open>
  C3, the claim as stated, fails in two ways.  The summary adds up transactions by the
  category they reference, not by their type: an expense filed under a category that is
  (now) an income category is in no entry of the expense breakdown.  And each total is a
  running sum of doubles: for expenses of 0.1 and 2.2 under one category and 0.2 under
  another, the entries are \<^verbatim>\<open>2.3000000000000003\<close> and \<^verbatim>\<open>0.2\<close>, the dashboard's total of
  the expenses is \<^verbatim>\<open>2.5\<close>, and the entries add up neither to that, exactly or as doubles,
  nor to the exact sum of the three amounts.
\<close>

theorem category_summary_total_counterexample:
  "expenseByCategory [sample_cat ''c1'' ''Food'' Income None]
       [sample_tx ''t1'' 100 ''lunch'' ''2024-02-10'' ''c1'' Expense] = []
   \<and> sum_list (map tx_amount (filter (\<lambda>t. tx_type t = Expense)
         [sample_tx ''t1'' 100 ''lunch'' ''2024-02-10'' ''c1'' Expense])) = 100
   \<and> map e_value (expenseByCategory rounding_categories rounding_transactions)
       = [Num double_2_3, Num double_0_2]
   \<and> reduce_sum tx_amount (filter (\<lambda>t. tx_type t = Expense) rounding_transactions)
       = Num (5 / 2)
   \<and> double_2_3 + double_0_2 \<noteq> 5 / 2
   \<and> js_add (Num double_2_3) (Num double_0_2) = Num double_2_5
   \<and> double_2_5 \<noteq> 5 / 2
   \<and> double_2_3 + double_0_2
       \<noteq> sum_list (map tx_amount (filter (\<lambda>t. tx_type t = Expense) rounding_transactions))"
proof (intro conjI)
  show "expenseByCategory [sample_cat ''c1'' ''Food'' Income None]
       [sample_tx ''t1'' 100 ''lunch'' ''2024-02-10'' ''c1'' Expense] = []"
    by (simp add: expenseByCategory_def sort_by_value_desc_def sample_cat_def)
  show "sum_list (map tx_amount (filter (\<lambda>t. tx_type t = Expense)
         [sample_tx ''t1'' 100 ''lunch'' ''2024-02-10'' ''c1'' Expense])) = 100"
    by (simp add: sample_tx_def)
  show "map e_value (expenseByCategory rounding_categories rounding_transactions)
       = [Num double_2_3, Num double_0_2]"
    by (simp add: expenseByCategory_def sort_by_value_desc_def category_entry_def
        reduce_sum_def rounding_categories_def rounding_transactions_def sample_cat_def
        sample_tx_def double_of_0_1 double_of_0_2 double_of_0_1_2_2 js_gt_def value_rank_def
        rounding_order)
  show "reduce_sum tx_amount (filter (\<lambda>t. tx_type t = Expense) rounding_transactions)
       = Num (5 / 2)"
    by (simp add: reduce_sum_def rounding_transactions_def sample_tx_def double_of_0_1
        double_of_0_1_0_2 double_of_0_3_2_2)
  show "double_2_3 + double_0_2 \<noteq> 5 / 2"
    by (simp add: double_2_3_def double_0_2_def)
  show "js_add (Num double_2_3) (Num double_0_2) = Num double_2_5"
    by (simp add: double_of_2_3_0_2)
  show "double_2_5 \<noteq> 5 / 2"
    by (simp add: double_2_5_def)
  show "double_2_3 + double_0_2
       \<noteq> sum_list (map tx_amount (filter (\<lambda>t. tx_type t = Expense) rounding_transactions))"
    by (simp add: rounding_transactions_def sample_tx_def double_2_3_def double_0_2_def
        double_0_1_def double_2_2_def)
qed

theorem category_summary_sorted_witness:
  "expenseByCategory sample_categories sample_transactions
     = [\<lparr> e_name = ''Food'', e_value = Num 125, e_color = ''#14b8a6'' \<rparr>,
        \<lparr> e_name = ''Transport'', e_value = Num 50, e_color = ''#14b8a6'' \<rparr>]
   \<and> categoryData sample_categories sample_transactions
     = [\<lparr> e_name = ''Salary'', e_value = Num 1000, e_color = ''#14b8a6'' \<rparr>,
        \<lparr> e_name = ''Food'', e_value = Num 125, e_color = ''#14b8a6'' \<rparr>,
        \<lparr> e_name = ''Transport'', e_value = Num 50, e_color = ''#14b8a6'' \<rparr>]"
  using category_summary_sorted [of sample_categories sample_transactions]
  by (simp add: expenseByCategory_def categoryData_def sample_categories_def
      sample_transactions_def sample_cat_def sample_tx_def category_entry_def reduce_sum_def
      sort_by_value_desc_def double_of_numeral js_gt_def value_rank_def)

section \<open>CSV export: rows and columns\<close>

lemma split_on_not_Nil: "split_on sep s \<noteq> []"
  by (induction s) (auto split: list.splits)

lemma split_on_free: "sep \<notin> set x \<Longrightarrow> split_on sep x = [x]"
  by (induction x) auto

lemma split_on_append:
  "sep \<notin> set x \<Longrightarrow> split_on sep (x @ sep # r) = x # split_on sep r"
  by (induction x) (auto split: list.splits)

lemma split_on_join:
  "xs \<noteq> [] \<Longrightarrow> \<forall>x\<in>set xs. sep \<notin> set x \<Longrightarrow> split_on sep (join [sep] xs) = xs"
proof (induction "[sep]" xs rule: join.induct)
  case 1
  then show ?case by simp
next
  case (2 x)
  then show ?case by (simp add: split_on_free)
next
  case (3 x y ys)
  then show ?case by (simp add: split_on_append)
qed

lemma set_join: "set (join sep xs) \<subseteq> set sep \<union> \<Union> (set ` set xs)"
  by (induction sep xs rule: join.induct) auto

lemma comma_neq_newline: "comma \<noteq> newline"
  by (simp add: comma_def newline_def)

lemma join_comma_no_newline:
  assumes "\<forall>x\<in>set xs. plain x"
  shows "newline \<notin> set (join [comma] xs)"
proof
  assume "newline \<in> set (join [comma] xs)"
  then have "newline \<in> set [comma] \<union> \<Union> (set ` set xs)"
    using set_join by blast
  then show False
    using assms comma_neq_newline by (auto simp add: plain_def)
qed

lemma plain_headers: "\<forall>x\<in>set csv_headers. plain x"
  by (simp add: csv_headers_def plain_def comma_def newline_def)

lemma csvContent_split:
  assumes "\<forall>row\<in>set rows. row \<noteq> [] \<and> (\<forall>x\<in>set row. plain x)"
  shows "map (split_on comma) (split_on newline (csvContent rows)) = csv_headers # rows"
proof -
  let ?lines = "join [comma] csv_headers # map (join [comma]) rows"
  have nl: "\<forall>l\<in>set ?lines. newline \<notin> set l"
    using assms plain_headers by (auto simp add: join_comma_no_newline)
  have "split_on newline (csvContent rows) = ?lines"
    unfolding csvContent_def using nl by (intro split_on_join) simp_all
  moreover have "split_on comma (join [comma] csv_headers) = csv_headers"
    using plain_headers by (intro split_on_join) (simp_all add: csv_headers_def plain_def)
  moreover have "map (split_on comma) (map (join [comma]) rows) = rows"
    using assms by (induction rows) (simp_all add: split_on_join plain_def)
  ultimately show ?thesis by simp
qed


lemma toUpperCase_letters: "toUpperCase CHR ''i'' = CHR ''I''" "toUpperCase CHR ''e'' = CHR ''E''"
  by (simp_all add: toUpperCase_def)

lemma plain_type_name: "plain (type_name ty)"
  by (cases ty) (simp_all add: type_name_def plain_def comma_def newline_def)

lemma plain_capitalize_type: "plain (capitalize (type_name ty))"
  by (cases ty) (simp_all add: capitalize_def type_name_def toUpperCase_letters plain_def comma_def newline_def)

lemma plain_category_label:
  assumes "\<forall>c\<in>set categories. plain (cat_name c)"
  shows "plain (category_label categories t)"
proof (cases "find (\<lambda>c. cat_id c = tx_category_id t) categories")
  case None
  then show ?thesis
    by (simp add: category_label_def plain_def comma_def newline_def)
next
  case (Some c)
  then have "c \<in> set categories"
    by (auto simp add: find_Some_iff)
  with assms Some show ?thesis
    by (simp add: category_label_def plain_def comma_def newline_def)
qed

lemma category_label_unmatched:
  "tx_category_id t \<notin> cat_id ` set categories \<Longrightarrow> category_label categories t = ''Uncategorized''"
proof -
  assume "tx_category_id t \<notin> cat_id ` set categories"
  then have "find (\<lambda>c. cat_id c = tx_category_id t) categories = None"
    by (force simp add: find_None_iff image_iff)
  then show ?thesis by (simp add: category_label_def)
qed

lemma category_label_matched:
  assumes "distinct (map cat_id categories)" and "c \<in> set categories"
    and "cat_id c = tx_category_id t" and "cat_name c \<noteq> []"
  shows "category_label categories t = cat_name c"
proof -
  from assms(2,3) obtain c' where f: "find (\<lambda>c. cat_id c = tx_category_id t) categories = Some c'"
    by (cases "find (\<lambda>c. cat_id c = tx_category_id t) categories") (auto simp add: find_None_iff)
  then have "c' \<in> set categories" "cat_id c' = tx_category_id t"
    by (auto simp add: find_Some_iff)
  with assms have "c' = c"
    by (simp add: distinct_map inj_on_def)
  with f assms(4) show ?thesis by (simp add: category_label_def)
qed

lemma those_map_Some:
  "\<forall>x\<in>set xs. f x \<noteq> None \<Longrightarrow> those (map f xs) = Some (map (\<lambda>x. the (f x)) xs)"
  by (induction xs) auto


lemma export_rows_split:
  assumes "transactions \<noteq> []"
    and "\<forall>t\<in>set transactions. plain (tx_description t) \<and> plain (toFixed2 (tx_amount t))
           \<and> plain (toLocaleDateString (tx_date t))
           \<and> (case format_ymd (tx_date t) of None \<Rightarrow> False | Some d \<Rightarrow> plain d)"
    and "\<forall>c\<in>set categories. plain (cat_name c)"
  shows "(\<exists>name content.
            exportTransactions toLocaleDateString toFixed2 now_iso categories transactions
              = Downloaded name content
          \<and> map (split_on comma) (split_on newline content)
              = csv_headers # map (\<lambda>t. [toLocaleDateString (tx_date t),
                                          capitalize (type_name (tx_type t)),
                                          category_label categories t,
                                          tx_description t,
                                          toFixed2 (tx_amount t)]) transactions)
    \<and> (\<exists>name content.
            exportReport format_ymd toFixed2 range_from range_to categories transactions
              = Downloaded name content
          \<and> map (split_on comma) (split_on newline content)
              = csv_headers # map (\<lambda>t. [the (format_ymd (tx_date t)),
                                          type_name (tx_type t),
                                          category_label categories t,
                                          tx_description t,
                                          toFixed2 (tx_amount t)]) transactions)"
proof
  let ?rows = "map (\<lambda>t. [toLocaleDateString (tx_date t), capitalize (type_name (tx_type t)),
      category_label categories t, tx_description t, toFixed2 (tx_amount t)]) transactions"
  have "\<forall>row\<in>set ?rows. row \<noteq> [] \<and> (\<forall>x\<in>set row. plain x)"
    using assms(2,3)
    by (auto simp add: plain_capitalize_type plain_type_name plain_category_label
        split: option.splits)
  then have "map (split_on comma) (split_on newline (csvContent ?rows)) = csv_headers # ?rows"
    by (rule csvContent_split)
  then show "\<exists>name content.
            exportTransactions toLocaleDateString toFixed2 now_iso categories transactions
              = Downloaded name content
          \<and> map (split_on comma) (split_on newline content) = csv_headers # ?rows"
    using assms(1) by (simp add: exportTransactions_def Let_def)
next
  let ?rows = "map (\<lambda>t. [the (format_ymd (tx_date t)), type_name (tx_type t),
      category_label categories t, tx_description t, toFixed2 (tx_amount t)]) transactions"
  have "\<forall>row\<in>set ?rows. row \<noteq> [] \<and> (\<forall>x\<in>set row. plain x)"
    using assms(2,3)
    by (auto simp add: plain_capitalize_type plain_type_name plain_category_label
        split: option.splits)
  then have sp: "map (split_on comma) (split_on newline (csvContent ?rows)) = csv_headers # ?rows"
    by (rule csvContent_split)
  have "those (map (\<lambda>transaction.
                     map_option (\<lambda>date.
                       [date,
                        type_name (tx_type transaction),
                        category_label categories transaction,
                        tx_description transaction,
                        toFixed2 (tx_amount transaction)])
                       (format_ymd (tx_date transaction))) transactions) = Some ?rows"
    using assms(2) by (subst those_map_Some) (auto split: option.splits)
  with sp show "\<exists>name content.
            exportReport format_ymd toFixed2 range_from range_to categories transactions
              = Downloaded name content
          \<and> map (split_on comma) (split_on newline content) = csv_headers # ?rows"
    using assms(1) by (simp add: exportReport_def)
qed



lemma sample_toFixed2_values:
  "sample_toFixed2 25 = ''25.00''" "sample_toFixed2 50 = ''50.00''"
  "sample_toFixed2 1000 = ''1000.00''" "sample_toFixed2 100 = ''100.00''"
proof -
  have f: "\<lfloor>\<bar>25::rat\<bar> * 100 + 1 / 2\<rfloor> = 2500" "\<lfloor>\<bar>50::rat\<bar> * 100 + 1 / 2\<rfloor> = 5000"
    "\<lfloor>\<bar>1000::rat\<bar> * 100 + 1 / 2\<rfloor> = 100000" "\<lfloor>\<bar>100::rat\<bar> * 100 + 1 / 2\<rfloor> = 10000"
    by (simp_all add: floor_eq_iff)
  show "sample_toFixed2 25 = ''25.00''" "sample_toFixed2 50 = ''50.00''"
    "sample_toFixed2 1000 = ''1000.00''" "sample_toFixed2 100 = ''100.00''"
    unfolding sample_toFixed2_def f by (simp_all add: decimal.simps digit_char_def)
qed

lemma sample_dates:
  "sample_toLocaleDateString ''2024-02-12'' = ''2024-02-12''"
  "sample_toLocaleDateString ''2024-02-10'' = ''2024-02-10''"
  "sample_toLocaleDateString ''2024-02-01'' = ''2024-02-01''"
  "sample_toLocaleDateString ''2024-01-15'' = ''2024-01-15''"
  "sample_format_ymd ''2024-02-12'' = Some ''2024-02-12''"
  "sample_format_ymd ''2024-02-10'' = Some ''2024-02-10''"
  "sample_format_ymd ''2024-02-01'' = Some ''2024-02-01''"
  "sample_format_ymd ''2024-01-15'' = Some ''2024-01-15''"
  by (simp_all add: sample_toLocaleDateString_def sample_format_ymd_def sample_localDate_def
      digit_def)


lemma sample_labels:
  "category_label sample_categories (sample_tx i a d dt ''c1'' ty) = ''Food''"
  "category_label sample_categories (sample_tx i a d dt ''c2'' ty) = ''Salary''"
  "category_label sample_categories (sample_tx i a d dt ''c3'' ty) = ''Transport''"
  by (simp_all add: category_label_def sample_categories_def sample_cat_def sample_tx_def)

lemma capitalize_type_name:
  "capitalize (type_name Income) = ''Income''" "capitalize (type_name Expense) = ''Expense''"
  by (simp_all add: capitalize_def type_name_def toUpperCase_letters)

text \<open>
  C8, amended.  For a non-empty transaction list in which no exported field (formatted
  date, category name, description, formatted amount) holds a comma or a line break, and
  (reports page) every date is one that date-fns formats, the export is a download whose
  content, cut into lines and each line cut at the commas, is the header row
  Date, Type, Category, Description, Amount followed by one row per transaction in list
  order, with the columns formatted date, type, category label, description and
  \<^verbatim>\<open>toFixed(2)\<close> of the amount.  The category label is Uncategorized when no category
  has the referenced id, and the name of the category with that id when ids are distinct
  and the name is not empty.  Fields are written as they are, without quoting.
\<close>

theorem csv_rows:
  assumes "transactions \<noteq> []"
    and "\<forall>t\<in>set transactions. plain (tx_description t) \<and> plain (toFixed2 (tx_amount t))
           \<and> plain (toLocaleDateString (tx_date t))
           \<and> (case format_ymd (tx_date t) of None \<Rightarrow> False | Some d \<Rightarrow> plain d)"
    and "\<forall>c\<in>set categories. plain (cat_name c)"
  shows "(\<exists>name content.
            exportTransactions toLocaleDateString toFixed2 now_iso categories transactions
              = Downloaded name content
          \<and> map (split_on comma) (split_on newline content)
              = csv_headers # map (\<lambda>t. [toLocaleDateString (tx_date t),
                                          capitalize (type_name (tx_type t)),
                                          category_label categories t,
                                          tx_description t,
                                          toFixed2 (tx_amount t)]) transactions)
    \<and> (\<exists>name content.
            exportReport format_ymd toFixed2 range_from range_to categories transactions
              = Downloaded name content
          \<and> map (split_on comma) (split_on newline content)
              = csv_headers # map (\<lambda>t. [the (format_ymd (tx_date t)),
                                          type_name (tx_type t),
                                          category_label categories t,
                                          tx_description t,
                                          toFixed2 (tx_amount t)]) transactions)
    \<and> (\<forall>t. tx_category_id t \<notin> cat_id ` set categories \<longrightarrow>
           category_label categories t = ''Uncategorized'')
    \<and> (\<forall>t c. distinct (map cat_id categories) \<and> c \<in> set categories
           \<and> cat_id c = tx_category_id t \<and> cat_name c \<noteq> [] \<longrightarrow>
           category_label categories t = cat_name c)"
proof (intro conjI allI impI)
  show "\<exists>name content.
            exportTransactions toLocaleDateString toFixed2 now_iso categories transactions
              = Downloaded name content
          \<and> map (split_on comma) (split_on newline content)
              = csv_headers # map (\<lambda>t. [toLocaleDateString (tx_date t),
                                          capitalize (type_name (tx_type t)),
                                          category_label categories t,
                                          tx_description t,
                                          toFixed2 (tx_amount t)]) transactions"
    using export_rows_split [OF assms] by (rule conjunct1)
next
  show "\<exists>name content.
            exportReport format_ymd toFixed2 range_from range_to categories transactions
              = Downloaded name content
          \<and> map (split_on comma) (split_on newline content)
              = csv_headers # map (\<lambda>t. [the (format_ymd (tx_date t)),
                                          type_name (tx_type t),
                                          category_label categories t,
                                          tx_description t,
                                          toFixed2 (tx_amount t)]) transactions"
    using export_rows_split [OF assms] by (rule conjunct2)
next
  fix t :: Transaction
  assume "tx_category_id t \<notin> cat_id ` set categories"
  then show "category_label categories t = ''Uncategorized''"
    by (rule category_label_unmatched)
next
  fix t :: Transaction and c
  assume "distinct (map cat_id categories) \<and> c \<in> set categories
      \<and> cat_id c = tx_category_id t \<and> cat_name c \<noteq> []"
  then show "category_label categories t = cat_name c"
    using category_label_matched by blast
qed

theorem csv_rows_witness:
  "(\<exists>name content.
      exportTransactions sample_toLocaleDateString sample_toFixed2 ''2024-02-12T10:00:00.000Z''
        sample_categories sample_transactions = Downloaded name content
      \<and> map (split_on comma) (split_on newline content)
          = [[''Date'', ''Type'', ''Category'', ''Description'', ''Amount''],
             [''2024-02-12'', ''Expense'', ''Food'', ''lunch'', ''25.00''],
             [''2024-02-10'', ''Expense'', ''Transport'', ''bus pass'', ''50.00''],
             [''2024-02-01'', ''Income'', ''Salary'', ''pay'', ''1000.00''],
             [''2024-01-15'', ''Expense'', ''Food'', ''groceries'', ''100.00'']])
   \<and> (\<exists>name content.
      exportReport sample_format_ymd sample_toFixed2 ''2024-01-01'' ''2024-02-29''
        sample_categories sample_transactions = Downloaded name content
      \<and> map (split_on comma) (split_on newline content)
          = [[''Date'', ''Type'', ''Category'', ''Description'', ''Amount''],
             [''2024-02-12'', ''expense'', ''Food'', ''lunch'', ''25.00''],
             [''2024-02-10'', ''expense'', ''Transport'', ''bus pass'', ''50.00''],
             [''2024-02-01'', ''income'', ''Salary'', ''pay'', ''1000.00''],
             [''2024-01-15'', ''expense'', ''Food'', ''groceries'', ''100.00'']])"
proof -
  have h1: "sample_transactions \<noteq> []"
    by (simp add: sample_transactions_def)
  have h2: "\<forall>t\<in>set sample_transactions. plain (tx_description t)
      \<and> plain (sample_toFixed2 (tx_amount t))
      \<and> plain (sample_toLocaleDateString (tx_date t))
      \<and> (case sample_format_ymd (tx_date t) of None \<Rightarrow> False | Some d \<Rightarrow> plain d)"
    by (simp add: sample_transactions_def sample_tx_def sample_toFixed2_values sample_dates
        plain_def comma_def newline_def)
  have h3: "\<forall>c\<in>set sample_categories. plain (cat_name c)"
    by (simp add: sample_categories_def sample_cat_def plain_def comma_def newline_def)
  have r1: "csv_headers # map (\<lambda>t. [sample_toLocaleDateString (tx_date t),
        capitalize (type_name (tx_type t)), category_label sample_categories t,
        tx_description t, sample_toFixed2 (tx_amount t)]) sample_transactions
     = [[''Date'', ''Type'', ''Category'', ''Description'', ''Amount''],
        [''2024-02-12'', ''Expense'', ''Food'', ''lunch'', ''25.00''],
        [''2024-02-10'', ''Expense'', ''Transport'', ''bus pass'', ''50.00''],
        [''2024-02-01'', ''Income'', ''Salary'', ''pay'', ''1000.00''],
        [''2024-01-15'', ''Expense'', ''Food'', ''groceries'', ''100.00'']]"
    by (simp add: sample_transactions_def sample_labels csv_headers_def)
      (simp add: sample_tx_def sample_toFixed2_values sample_dates capitalize_type_name)
  have r2: "csv_headers # map (\<lambda>t. [the (sample_format_ymd (tx_date t)),
        type_name (tx_type t), category_label sample_categories t,
        tx_description t, sample_toFixed2 (tx_amount t)]) sample_transactions
     = [[''Date'', ''Type'', ''Category'', ''Description'', ''Amount''],
        [''2024-02-12'', ''expense'', ''Food'', ''lunch'', ''25.00''],
        [''2024-02-10'', ''expense'', ''Transport'', ''bus pass'', ''50.00''],
        [''2024-02-01'', ''income'', ''Salary'', ''pay'', ''1000.00''],
        [''2024-01-15'', ''expense'', ''Food'', ''groceries'', ''100.00'']]"
    by (simp add: sample_transactions_def sample_labels csv_headers_def)
      (simp add: sample_tx_def sample_toFixed2_values sample_dates type_name_def)
  note w = csv_rows [OF h1 h2 h3, of "''2024-02-12T10:00:00.000Z''" "''2024-01-01''"
      "''2024-02-29''"]
  show ?thesis
    using w [THEN conjunct1] w [THEN conjunct2, THEN conjunct1]
    unfolding r1 r2 by (rule conjI)
qed

text \<open>
  C8, the claim as stated, fails: a description with a comma is written unquoted, and the
  row then has six comma-separated columns, the fourth only a part of the description and
  the fifth not the amount.
\<close>

theorem csv_rows_counterexample:
  "exportTransactions sample_toLocaleDateString sample_toFixed2 ''2024-02-12T10:00:00.000Z''
      sample_categories [sample_tx ''t1'' 25 ''lunch, coffee'' ''2024-02-12'' ''c1'' Expense]
     = Downloaded ''transactions_2024-02-12.csv''
         (''Date,Type,Category,Description,Amount'' @ [newline]
            @ ''2024-02-12,Expense,Food,lunch, coffee,25.00'')
   \<and> split_on comma ''2024-02-12,Expense,Food,lunch, coffee,25.00''
     = [''2024-02-12'', ''Expense'', ''Food'', ''lunch'', '' coffee'', ''25.00'']"
  by (simp add: exportTransactions_def csvContent_def csv_headers_def sample_labels
      sample_toFixed2_values sample_dates capitalize_type_name comma_def)
    (simp add: sample_tx_def sample_toFixed2_values sample_dates capitalize_type_name)

section \<open>Export of an empty list\<close>

text \<open>
  C6. With no transaction (transactions page), or with every transaction filtered out
  (reports page), the export shows a notification and nothing else: the outcome is not a
  download, and no file content is built.
\<close>

theorem export_empty_notifies:
  "exportTransactions toLocaleDateString toFixed2 now_iso categories []
     = Notified \<lparr> toast_title = ''No transactions to export'',
                  toast_description = ''Add some transactions first before exporting.'',
                  toast_destructive = False \<rparr>
   \<and> (filteredTransactions categoryFilter typeFilter transactions = [] \<longrightarrow>
        exportReport format_ymd toFixed2 range_from range_to categories
            (filteredTransactions categoryFilter typeFilter transactions)
          = Notified \<lparr> toast_title = ''No data to export'',
                       toast_description =
                         ''Apply different filters or select a different date range.'',
                       toast_destructive = False \<rparr>)"
  by (simp add: exportTransactions_def exportReport_def)

theorem export_empty_notifies_witness:
  "sample_transactions \<noteq> []
   \<and> filteredTransactions ''all'' ''income''
        [sample_tx ''t1'' 25 ''lunch'' ''2024-02-12'' ''c1'' Expense] = []
   \<and> exportReport sample_format_ymd sample_toFixed2 ''2024-01-01'' ''2024-02-29''
        sample_categories
        (filteredTransactions ''all'' ''income''
           [sample_tx ''t1'' 25 ''lunch'' ''2024-02-12'' ''c1'' Expense])
      = Notified \<lparr> toast_title = ''No data to export'',
                   toast_description =
                     ''Apply different filters or select a different date range.'',
                   toast_destructive = False \<rparr>
   \<and> exportTransactions sample_toLocaleDateString sample_toFixed2
        ''2024-02-12T10:00:00.000Z'' sample_categories []
      = Notified \<lparr> toast_title = ''No transactions to export'',
                   toast_description = ''Add some transactions first before exporting.'',
                   toast_destructive = False \<rparr>"
proof -
  have f: "filteredTransactions ''all'' ''income''
        [sample_tx ''t1'' 25 ''lunch'' ''2024-02-12'' ''c1'' Expense] = []"
    by (simp add: filteredTransactions_def sample_tx_def type_name_def)
  show ?thesis
    using export_empty_notifies [of sample_toLocaleDateString sample_toFixed2
        "''2024-02-12T10:00:00.000Z''" sample_categories "''all''" "''income''"
        "[sample_tx ''t1'' 25 ''lunch'' ''2024-02-12'' ''c1'' Expense]"
        sample_format_ymd "''2024-01-01''" "''2024-02-29''"] f
    by (simp add: sample_transactions_def)
qed

section \<open>Backend failures in the entity forms\<close>















text \<open>
  The seeding of the default categories shows no notification, whatever the backend
  answers to its inserts.
\<close>

lemma createDefaultCategories_loop_silent:
  "Notify t \<notin> set (createDefaultCategories_loop cs answers)"
  by (induction cs arbitrary: answers) simp_all

lemma createDefaultCategories_silent: "Notify t \<notin> set (createDefaultCategories user answers)"
  by (simp add: createDefaultCategories_def createDefaultCategories_loop_silent
      split: option.splits)




section \<open>Deleting a category\<close>

text \<open>
  C4, amended.  Under the declared foreign-key action (ON DELETE CASCADE), deleting a
  category always succeeds and deletes the transactions that reference it: afterwards no
  transaction references the deleted id, every other transaction and category is kept in
  order, and the categories page, on the success answer, removes the category from its
  list and shows the notification.
\<close>

theorem delete_category_cascades:
  "\<exists>db'. delete_category transactions_category_fk row_id db = Succeeded db'
     \<and> db_transactions db' = filter (\<lambda>t. tx_category_id t \<noteq> row_id) (db_transactions db)
     \<and> row_id \<notin> tx_category_id ` set (db_transactions db')
     \<and> db_categories db' = filter (\<lambda>c. cat_id c \<noteq> row_id) (db_categories db)
     \<and> delete_category_flow uid row_id db s
         = (db',
            s \<lparr> cp_categories := filter (\<lambda>c. cat_id c \<noteq> row_id) (cp_categories s) \<rparr>,
            [BackendCall ''categories'' ''delete'',
             Notify (info_toast ''Category deleted''
               ''Your category has been deleted successfully.'')])"
  by (auto simp add: delete_category_def transactions_category_fk_def delete_category_flow_def
      cp_handleDeleteCategory_def Let_def)

text \<open>
  C4, the claim as stated, fails: the transaction that referenced the deleted category is
  not left in place with a dangling reference; it is gone from the table.
\<close>

theorem delete_category_dangling_counterexample:
  "delete_category transactions_category_fk ''c1'' sample_db
     = Succeeded \<lparr> db_categories = [sample_cat ''c2'' ''Salary'' Income None],
                   db_transactions = [sample_tx ''t2'' 1000 ''pay'' ''2024-02-01'' ''c2'' Income] \<rparr>
   \<and> sample_tx ''t1'' 25 ''lunch'' ''2024-02-12'' ''c1'' Expense \<in> set (db_transactions sample_db)"
  by (simp add: delete_category_def transactions_category_fk_def sample_db_def Let_def
      sample_cat_def sample_tx_def)

end

